theory Spec2Isabelle
  imports Complex_Main
begin

section \<open>Python values used by the physics modules\<close>

text \<open>
  The physics package (\<^verbatim>\<open>src/physics\<close>) computes with Python numbers. Floats are
  idealised as \<^typ>\<open>real\<close>, Python integers are \<^typ>\<open>int\<close>. An exception is a
  value of \<open>py_error\<close>; a method that mutates its object before an exception escapes
  returns the mutated object together with the exception.
\<close>

datatype py_error =
    AttributeError string
  | TypeError string
  | ZeroDivisionError
  | ValueError
  | OverflowError
  | InvalidParameter
  | NumericOverflow

text \<open>
  \<open>AttributeError\<close>, \<open>TypeError\<close>, \<open>ZeroDivisionError\<close>, \<open>ValueError\<close> and
  \<open>OverflowError\<close> are the exceptions the interpreter raises in the modelled code.
  \<open>InvalidParameter\<close> and \<open>NumericOverflow\<close> are the failures that the specification
  names for the creation of a pendulum and for a non-finite step; no statement of the
  source raises them.
\<close>

definition py_int :: "real \<Rightarrow> int" where
  \<comment> \<open>Python's \<^verbatim>\<open>int(x)\<close> on a float: truncation towards zero.\<close>
  "py_int x = (if 0 \<le> x then \<lfloor>x\<rfloor> else \<lceil>x\<rceil>)"

type_synonym color = "int \<times> int \<times> int"

subsection \<open>Floats with their non-finite values\<close>

text \<open>
  Where a property depends on the values \<^verbatim>\<open>inf\<close> and \<^verbatim>\<open>nan\<close>, a Python float is a
  \<open>pyfloat\<close>. A finite result is kept exact (rounding and the sign of zero are not
  modelled); a result beyond the largest double is an infinity. The operations follow
  Python: \<^verbatim>\<open>+\<close>, \<^verbatim>\<open>-\<close> and \<^verbatim>\<open>*\<close> overflow silently and give \<^verbatim>\<open>nan\<close> for
  \<^verbatim>\<open>inf - inf\<close> and \<^verbatim>\<open>0 * inf\<close>; \<^verbatim>\<open>/\<close> raises \<open>ZeroDivisionError\<close> for a zero
  divisor; \<^verbatim>\<open>x ** 2\<close> raises \<open>OverflowError\<close> when a finite square overflows;
  \<^verbatim>\<open>math.sin\<close> and \<^verbatim>\<open>math.cos\<close> raise \<open>ValueError\<close> for an infinity and pass
  \<^verbatim>\<open>nan\<close> on; \<^verbatim>\<open>int\<close> raises \<open>ValueError\<close> for \<^verbatim>\<open>nan\<close> and \<open>OverflowError\<close> for
  an infinity.
\<close>

datatype pyfloat = Fin real | PInf | NInf | NaN

definition max_float :: real where
  \<comment> \<open>\<^verbatim>\<open>sys.float_info.max\<close>\<close>
  "max_float = (2 ^ 53 - 1) * 2 ^ 971"

definition fl_result :: "real \<Rightarrow> pyfloat" where
  "fl_result r = (if r > max_float then PInf else if r < - max_float then NInf else Fin r)"

fun fl_finite :: "pyfloat \<Rightarrow> bool" where
  "fl_finite (Fin a) = True"
| "fl_finite x = False"

fun fl_neg :: "pyfloat \<Rightarrow> pyfloat" where
  "fl_neg (Fin a) = Fin (- a)"
| "fl_neg PInf = NInf"
| "fl_neg NInf = PInf"
| "fl_neg NaN = NaN"

fun fl_add :: "pyfloat \<Rightarrow> pyfloat \<Rightarrow> pyfloat" where
  "fl_add NaN y = NaN"
| "fl_add x NaN = NaN"
| "fl_add (Fin a) (Fin b) = fl_result (a + b)"
| "fl_add (Fin a) y = y"
| "fl_add x (Fin b) = x"
| "fl_add PInf PInf = PInf"
| "fl_add NInf NInf = NInf"
| "fl_add PInf NInf = NaN"
| "fl_add NInf PInf = NaN"

definition fl_sub :: "pyfloat \<Rightarrow> pyfloat \<Rightarrow> pyfloat" where
  "fl_sub x y = fl_add x (fl_neg y)"

definition fl_scale_inf :: "real \<Rightarrow> pyfloat \<Rightarrow> pyfloat" where
  \<comment> \<open>a finite factor times an infinity\<close>
  "fl_scale_inf a y = (if a = 0 then NaN else if 0 < a then y else fl_neg y)"

fun fl_mul :: "pyfloat \<Rightarrow> pyfloat \<Rightarrow> pyfloat" where
  "fl_mul NaN y = NaN"
| "fl_mul x NaN = NaN"
| "fl_mul (Fin a) (Fin b) = fl_result (a * b)"
| "fl_mul (Fin a) y = fl_scale_inf a y"
| "fl_mul x (Fin b) = fl_scale_inf b x"
| "fl_mul PInf y = y"
| "fl_mul NInf y = fl_neg y"

fun fl_div :: "pyfloat \<Rightarrow> pyfloat \<Rightarrow> py_error + pyfloat" where
  "fl_div x (Fin b) =
     (if b = 0 then Inl ZeroDivisionError
      else case x of
             Fin a \<Rightarrow> Inr (fl_result (a / b))
           | NaN \<Rightarrow> Inr NaN
           | PInf \<Rightarrow> Inr (if 0 < b then PInf else NInf)
           | NInf \<Rightarrow> Inr (if 0 < b then NInf else PInf))"
| "fl_div (Fin a) PInf = Inr (Fin 0)"
| "fl_div (Fin a) NInf = Inr (Fin 0)"
| "fl_div x y = Inr NaN"

fun fl_pow2 :: "pyfloat \<Rightarrow> py_error + pyfloat" where
  \<comment> \<open>\<^verbatim>\<open>x ** 2\<close>\<close>
  "fl_pow2 (Fin a) = (if a\<^sup>2 > max_float then Inl OverflowError else Inr (Fin (a\<^sup>2)))"
| "fl_pow2 NaN = Inr NaN"
| "fl_pow2 x = Inr PInf"

fun fl_sin :: "pyfloat \<Rightarrow> py_error + pyfloat" where
  "fl_sin (Fin a) = Inr (Fin (sin a))"
| "fl_sin NaN = Inr NaN"
| "fl_sin x = Inl ValueError"

fun fl_cos :: "pyfloat \<Rightarrow> py_error + pyfloat" where
  "fl_cos (Fin a) = Inr (Fin (cos a))"
| "fl_cos NaN = Inr NaN"
| "fl_cos x = Inl ValueError"

fun fl_int :: "pyfloat \<Rightarrow> py_error + int" where
  "fl_int (Fin a) = Inr (py_int a)"
| "fl_int NaN = Inl ValueError"
| "fl_int x = Inl OverflowError"

definition bind_err :: "py_error + 'a \<Rightarrow> ('a \<Rightarrow> py_error + 'b) \<Rightarrow> py_error + 'b" where
  \<comment> \<open>the next statement runs if the one before did not raise\<close>
  "bind_err r f = (case r of Inl e \<Rightarrow> Inl e | Inr x \<Rightarrow> f x)"

section \<open>path\_tracer.py\<close>

subsection \<open>The bounded deque\<close>

text \<open>
  \<^verbatim>\<open>collections.deque(maxlen=n)\<close>: appending to a full deque discards the item at
  the left end; a deque of maximal length 0 stays empty.
\<close>

record 'a deque =
  items :: "'a list"
  maxlen :: nat

definition deque_new :: "nat \<Rightarrow> 'a deque" where
  "deque_new n = \<lparr>items = [], maxlen = n\<rparr>"

definition deque_append :: "'a deque \<Rightarrow> 'a \<Rightarrow> 'a deque" where
  "deque_append d x =
     (if maxlen d = 0 then d
      else if maxlen d \<le> length (items d) then d\<lparr>items := tl (items d) @ [x]\<rparr>
      else d\<lparr>items := items d @ [x]\<rparr>)"

definition deque_clear :: "'a deque \<Rightarrow> 'a deque" where
  "deque_clear d = d\<lparr>items := []\<rparr>"

subsection \<open>colorsys.hsv\_to\_rgb of the standard library\<close>

definition hsv_to_rgb :: "real \<Rightarrow> real \<Rightarrow> real \<Rightarrow> real \<times> real \<times> real" where
  "hsv_to_rgb h s v =
     (if s = 0 then (v, v, v)
      else
        let i = py_int (h * 6);
            f = h * 6 - of_int i;
            p = v * (1 - s);
            q = v * (1 - s * f);
            t = v * (1 - s * (1 - f));
            i = i mod 6
        in if i = 0 then (v, t, p)
           else if i = 1 then (q, v, p)
           else if i = 2 then (p, v, t)
           else if i = 3 then (p, q, v)
           else if i = 4 then (t, p, v)
           else (v, p, q))"

subsection \<open>class PathTracer\<close>

text \<open>A stored point is the tuple \<^verbatim>\<open>(x, y, point_color, alpha)\<close>.\<close>

type_synonym path_point = "real \<times> real \<times> color \<times> int"

definition point_alpha :: "path_point \<Rightarrow> int" where
  "point_alpha pt = (case pt of (x, y, c, a) \<Rightarrow> a)"

record PathTracer =
  points :: "path_point deque"
  enabled :: bool
  color :: color
  fade_rate :: real
  min_alpha :: int
  line_thickness :: int
  rainbow_mode :: bool
  hue_increment :: real
  current_hue :: real

definition PathTracer_init :: "nat \<Rightarrow> PathTracer" where
  \<comment> \<open>\<^verbatim>\<open>__init__(self, max_points=1000)\<close>\<close>
  "PathTracer_init max_points =
     \<lparr>points = deque_new max_points,
      enabled = True,
      color = (255, 0, 0),
      fade_rate = 0.95,
      min_alpha = 10,
      line_thickness = 2,
      rainbow_mode = False,
      hue_increment = 0.01,
      current_hue = 0\<rparr>"

definition clear :: "PathTracer \<Rightarrow> PathTracer" where
  "clear t = t\<lparr>points := deque_clear (points t)\<rparr>"

definition add_point :: "PathTracer \<Rightarrow> real \<times> real \<Rightarrow> PathTracer" where
  "add_point t position =
     (if \<not> enabled t then t
      else
        case position of (x, y) \<Rightarrow>
          if rainbow_mode t then
            (case hsv_to_rgb (current_hue t) 1 1 of (r, g, b) \<Rightarrow>
               let point_color = (py_int (r * 255), py_int (g * 255), py_int (b * 255));
                   t1 = t\<lparr>current_hue := frac (current_hue t + hue_increment t)\<rparr>
               in t1\<lparr>points := deque_append (points t1) (x, y, point_color, 255)\<rparr>)
          else
            t\<lparr>points := deque_append (points t) (x, y, color t, 255)\<rparr>)"

definition fade_point :: "PathTracer \<Rightarrow> path_point deque \<Rightarrow> path_point \<Rightarrow> path_point deque" where
  \<comment> \<open>the body of the \<^verbatim>\<open>for\<close> loop of \<^verbatim>\<open>update\<close>\<close>
  "fade_point t updated_points pt =
     (case pt of (x, y, c, a) \<Rightarrow>
        let new_alpha = max (py_int (of_int a * fade_rate t)) 0
        in if new_alpha > min_alpha t
           then deque_append updated_points (x, y, c, new_alpha)
           else updated_points)"

definition PathTracer_update :: "PathTracer \<Rightarrow> PathTracer" where
  "PathTracer_update t =
     (if items (points t) = [] then t
      else t\<lparr>points :=
             foldl (fade_point t) (deque_new (maxlen (points t))) (items (points t))\<rparr>)"

definition set_color :: "PathTracer \<Rightarrow> color \<Rightarrow> PathTracer" where
  "set_color t c = t\<lparr>color := c\<rparr>"

definition toggle_rainbow_mode :: "PathTracer \<Rightarrow> PathTracer" where
  "toggle_rainbow_mode t = t\<lparr>rainbow_mode := \<not> rainbow_mode t\<rparr>"

definition set_enabled :: "PathTracer \<Rightarrow> bool \<Rightarrow> PathTracer" where
  "set_enabled t e =
     (let t1 = t\<lparr>enabled := e\<rparr> in if \<not> e then clear t1 else t1)"

definition is_enabled :: "PathTracer \<Rightarrow> bool" where
  "is_enabled t = enabled t"

text \<open>A sequence of calls on one tracer.\<close>

datatype tracer_call =
    Add_point "real \<times> real"
  | Update
  | Clear
  | Set_color color
  | Toggle_rainbow_mode
  | Set_enabled bool

fun tracer_step :: "PathTracer \<Rightarrow> tracer_call \<Rightarrow> PathTracer" where
  "tracer_step t (Add_point position) = add_point t position"
| "tracer_step t Update = PathTracer_update t"
| "tracer_step t Clear = clear t"
| "tracer_step t (Set_color c) = set_color t c"
| "tracer_step t Toggle_rainbow_mode = toggle_rainbow_mode t"
| "tracer_step t (Set_enabled e) = set_enabled t e"

definition tracer_run :: "nat \<Rightarrow> tracer_call list \<Rightarrow> PathTracer" where
  "tracer_run max_points calls = foldl tracer_step (PathTracer_init max_points) calls"

text \<open>
  A method call \<^verbatim>\<open>tracer.name(args)\<close> on a \<open>PathTracer\<close> instance. The class
  body binds exactly the method names below; a call through any other name fails at the
  attribute lookup, before the arguments are evaluated, with \<open>AttributeError\<close>
  (names inherited from \<^verbatim>\<open>object\<close> are not modelled). An argument list that does not
  fit the signature is a \<open>TypeError\<close>. \<^verbatim>\<open>render\<close> only draws.
\<close>

datatype py_arg = Num real | Flt pyfloat | Pair real real | Rgb color | Flag bool | Surface

definition PathTracer_call :: "PathTracer \<Rightarrow> string \<Rightarrow> py_arg list \<Rightarrow> py_error + PathTracer" where
  "PathTracer_call t name args =
     (if name = ''clear'' then
        (case args of [] \<Rightarrow> Inr (clear t) | _ \<Rightarrow> Inl (TypeError name))
      else if name = ''add_point'' then
        (case args of
           [a] \<Rightarrow>
             if \<not> enabled t then Inr t
             else (case a of Pair x y \<Rightarrow> Inr (add_point t (x, y)) | _ \<Rightarrow> Inl (TypeError name))
         | _ \<Rightarrow> Inl (TypeError name))
      else if name = ''update'' then
        (case args of [] \<Rightarrow> Inr (PathTracer_update t) | _ \<Rightarrow> Inl (TypeError name))
      else if name = ''render'' then
        (case args of [Surface] \<Rightarrow> Inr t | _ \<Rightarrow> Inl (TypeError name))
      else if name = ''set_color'' then
        (case args of [Rgb c] \<Rightarrow> Inr (set_color t c) | _ \<Rightarrow> Inl (TypeError name))
      else if name = ''toggle_rainbow_mode'' then
        (case args of [] \<Rightarrow> Inr (toggle_rainbow_mode t) | _ \<Rightarrow> Inl (TypeError name))
      else if name = ''set_enabled'' then
        (case args of [Flag e] \<Rightarrow> Inr (set_enabled t e) | _ \<Rightarrow> Inl (TypeError name))
      else if name = ''is_enabled'' then
        (case args of [] \<Rightarrow> Inr t | _ \<Rightarrow> Inl (TypeError name))
      else Inl (AttributeError name))"

section \<open>pendulum\_params.py\<close>

text \<open>
  The fields of \<open>PendulumParams\<close> carry the prefix \<open>p_\<close>, since a record field name
  is global and \<open>Pendulum\<close> has fields of the same names.
\<close>

record PendulumParams =
  p_offsetX :: real
  p_offsetY :: real
  p_length1 :: real
  p_length2 :: real
  p_mass1 :: real
  p_mass2 :: real
  p_angle1 :: real
  p_angle2 :: real
  p_velocity1 :: real
  p_velocity2 :: real
  p_showWire :: bool
  p_pathColor :: color
  p_pathDuration :: real

definition PendulumParams_init :: PendulumParams where
  "PendulumParams_init =
     \<lparr>p_offsetX = 400, p_offsetY = 100,
      p_length1 = 120, p_length2 = 120, p_mass1 = 10, p_mass2 = 10,
      p_angle1 = pi / 4, p_angle2 = pi / 4, p_velocity1 = 0, p_velocity2 = 0,
      p_showWire = True, p_pathColor = (80, 180, 255), p_pathDuration = 5\<rparr>"

section \<open>pendulum.py\<close>

record Pendulum =
  pid :: int
  offsetX :: real
  offsetY :: real
  length1 :: real
  length2 :: real
  mass1 :: real
  mass2 :: real
  angle1 :: real
  angle2 :: real
  vel1 :: real
  vel2 :: real
  initial_angle1 :: real
  initial_angle2 :: real
  showWire :: bool
  wireColor :: color
  bobColor1 :: color
  bobColor2 :: color
  selectedColor :: color
  bobRadius1 :: real
  bobRadius2 :: real
  draggingBob :: int
  pathTracer :: "PathTracer option"

definition Pendulum_init :: Pendulum where
  \<comment> \<open>\<^verbatim>\<open>Pendulum()\<close>; \<open>pid\<close> is the attribute \<^verbatim>\<open>id\<close>\<close>
  "Pendulum_init =
     \<lparr>pid = -1, offsetX = 0, offsetY = 0,
      length1 = 100, length2 = 100, mass1 = 10, mass2 = 10,
      angle1 = 0, angle2 = 0, vel1 = 0, vel2 = 0,
      initial_angle1 = 0, initial_angle2 = 0,
      showWire = True, wireColor = (200, 200, 200),
      bobColor1 = (220, 50, 50), bobColor2 = (50, 50, 220), selectedColor = (150, 255, 150),
      bobRadius1 = 10, bobRadius2 = 10,
      draggingBob = 0, pathTracer = None\<rparr>"

definition Pendulum_initialize :: "Pendulum \<Rightarrow> PendulumParams \<Rightarrow> Pendulum \<times> py_error option" where
  "Pendulum_initialize self params =
     (let self1 = self\<lparr>offsetX := p_offsetX params, offsetY := p_offsetY params,
                        length1 := p_length1 params, length2 := p_length2 params,
                        mass1 := p_mass1 params, mass2 := p_mass2 params,
                        angle1 := p_angle1 params, angle2 := p_angle2 params,
                        vel1 := p_velocity1 params, vel2 := p_velocity2 params,
                        initial_angle1 := p_angle1 params, initial_angle2 := p_angle2 params,
                        showWire := p_showWire params,
                        pathTracer := Some (PathTracer_init 1000)\<rparr>
      in case PathTracer_call (PathTracer_init 1000) ''initialize''
                [Rgb (p_pathColor params), Num (p_pathDuration params)] of
           Inl e \<Rightarrow> (self1, Some e)
         | Inr t \<Rightarrow> (self1\<lparr>pathTracer := Some t\<rparr>, None))"

definition calculate_bob1_position :: "Pendulum \<Rightarrow> real \<times> real" where
  "calculate_bob1_position self =
     (offsetX self + of_int (py_int (length1 self * sin (angle1 self))),
      offsetY self + of_int (py_int (length1 self * cos (angle1 self))))"

definition calculate_bob2_position :: "Pendulum \<Rightarrow> real \<times> real" where
  "calculate_bob2_position self =
     (case calculate_bob1_position self of (p1x, p1y) \<Rightarrow>
        (p1x + of_int (py_int (length2 self * sin (angle2 self))),
         p1y + of_int (py_int (length2 self * cos (angle2 self)))))"

definition Pendulum_update :: "Pendulum \<Rightarrow> real \<Rightarrow> real \<Rightarrow> Pendulum \<times> py_error option" where
  "Pendulum_update self deltaTime gravity =
     (if draggingBob self > 0 then (self, None)
      else
        let sin1 = sin (angle1 self);
            cos1 = cos (angle1 self);
            sin12 = sin (angle1 self - angle2 self);
            cos12 = cos (angle1 self - angle2 self);
            m1 = mass1 self; m2 = mass2 self;
            l1 = length1 self; l2 = length2 self;
            num1 = - gravity * (2 * m1 + m2) * sin1;
            num1 = num1 - m2 * gravity * sin (angle1 self - 2 * angle2 self);
            num1 = num1 - 2 * sin12 * m2 * ((vel2 self)\<^sup>2 * l2 + (vel1 self)\<^sup>2 * l1 * cos12);
            num2 = 2 * sin12;
            num2 = num2 * ((vel1 self)\<^sup>2 * l1 * (m1 + m2) + gravity * (m1 + m2) * cos1);
            num2 = num2 + (vel2 self)\<^sup>2 * l2 * m2 * cos12;
            den = l1 * (2 * m1 + m2 - m2 * cos (2 * (angle1 self - angle2 self)))
        in if den = 0 then (self, Some ZeroDivisionError)
           else if l2 * den = 0 then (self, Some ZeroDivisionError)
           else
             let acc1 = num1 / den;
                 acc2 = num2 / (l2 * den);
                 self1 = self\<lparr>vel1 := vel1 self + acc1 * deltaTime\<rparr>;
                 self2 = self1\<lparr>vel2 := vel2 self1 + acc2 * deltaTime\<rparr>;
                 self3 = self2\<lparr>angle1 := angle1 self2 + vel1 self2 * deltaTime\<rparr>;
                 self4 = self3\<lparr>angle2 := angle2 self3 + vel2 self3 * deltaTime\<rparr>
             in case pathTracer self4 of
                  None \<Rightarrow> (self4, None)
                | Some t \<Rightarrow>
                    (case calculate_bob2_position self4 of (p2x, p2y) \<Rightarrow>
                       (case PathTracer_call t ''addPoint'' [Num p2x, Num p2y, Num deltaTime] of
                          Inl e \<Rightarrow> (self4, Some e)
                        | Inr t' \<Rightarrow> (self4\<lparr>pathTracer := Some t'\<rparr>, None))))"

definition startDrag :: "Pendulum \<Rightarrow> real \<times> real \<Rightarrow> Pendulum \<times> bool" where
  "startDrag self mousePos =
     (case calculate_bob1_position self of (p1x, p1y) \<Rightarrow>
      case calculate_bob2_position self of (p2x, p2y) \<Rightarrow>
        let dx = fst mousePos - p2x;
            dy = snd mousePos - p2y;
            dist = sqrt (dx * dx + dy * dy)
        in if dist \<le> bobRadius2 self then (self\<lparr>draggingBob := 2\<rparr>, True)
           else
             let dx = fst mousePos - p1x;
                 dy = snd mousePos - p1y;
                 dist = sqrt (dx * dx + dy * dy)
             in if dist \<le> bobRadius1 self then (self\<lparr>draggingBob := 1\<rparr>, True)
                else (self, False))"

definition endDrag :: "Pendulum \<Rightarrow> Pendulum" where
  "endDrag self = self\<lparr>draggingBob := 0\<rparr>"

subsection \<open>Pendulum.update on floats with non-finite values\<close>

text \<open>
  The same method \<open>update\<close>, and the two position helpers it calls, with every float a
  \<open>pyfloat\<close>, so that overflow and the exceptions of the arithmetic are branches of the
  model. \<open>Pendulum_fl\<close> has the attributes that \<open>update\<close> reads or writes.
\<close>

record Pendulum_fl =
  f_offsetX :: pyfloat
  f_offsetY :: pyfloat
  f_length1 :: pyfloat
  f_length2 :: pyfloat
  f_mass1 :: pyfloat
  f_mass2 :: pyfloat
  f_angle1 :: pyfloat
  f_angle2 :: pyfloat
  f_vel1 :: pyfloat
  f_vel2 :: pyfloat
  f_draggingBob :: int
  f_pathTracer :: "PathTracer option"

definition Pendulum_fl_init :: Pendulum_fl where
  \<comment> \<open>\<^verbatim>\<open>Pendulum()\<close>\<close>
  "Pendulum_fl_init =
     \<lparr>f_offsetX = Fin 0, f_offsetY = Fin 0,
      f_length1 = Fin 100, f_length2 = Fin 100, f_mass1 = Fin 10, f_mass2 = Fin 10,
      f_angle1 = Fin 0, f_angle2 = Fin 0, f_vel1 = Fin 0, f_vel2 = Fin 0,
      f_draggingBob = 0, f_pathTracer = None\<rparr>"

definition fl_accelerations :: "Pendulum_fl \<Rightarrow> pyfloat \<Rightarrow> py_error + (pyfloat \<times> pyfloat)" where
  \<comment> \<open>lines 120 to 149 of \<^verbatim>\<open>update\<close>: \<open>acc1\<close> and \<open>acc2\<close>, or the exception raised on the way\<close>
  "fl_accelerations self gravity =
     bind_err (fl_sin (f_angle1 self)) (\<lambda>sin1.
     bind_err (fl_sin (f_angle2 self)) (\<lambda>sin2.
     bind_err (fl_cos (f_angle1 self)) (\<lambda>cos1.
     bind_err (fl_cos (f_angle2 self)) (\<lambda>cos2.
     bind_err (fl_sin (fl_sub (f_angle1 self) (f_angle2 self))) (\<lambda>sin12.
     bind_err (fl_cos (fl_sub (f_angle1 self) (f_angle2 self))) (\<lambda>cos12.
     let m1 = f_mass1 self; m2 = f_mass2 self;
         l1 = f_length1 self; l2 = f_length2 self;
         num1 = fl_mul (fl_mul (fl_neg gravity) (fl_add (fl_mul (Fin 2) m1) m2)) sin1
     in
     bind_err (fl_sin (fl_sub (f_angle1 self) (fl_mul (Fin 2) (f_angle2 self)))) (\<lambda>sin122.
     let num1 = fl_sub num1 (fl_mul (fl_mul m2 gravity) sin122)
     in
     bind_err (fl_pow2 (f_vel2 self)) (\<lambda>vel2sq.
     bind_err (fl_pow2 (f_vel1 self)) (\<lambda>vel1sq.
     let num1 = fl_sub num1
                  (fl_mul (fl_mul (fl_mul (Fin 2) sin12) m2)
                     (fl_add (fl_mul vel2sq l2) (fl_mul (fl_mul vel1sq l1) cos12)));
         num2 = fl_mul (Fin 2) sin12
     in
     bind_err (fl_pow2 (f_vel1 self)) (\<lambda>vel1sq.
     let num2 = fl_mul num2
                  (fl_add (fl_mul (fl_mul vel1sq l1) (fl_add m1 m2))
                     (fl_mul (fl_mul gravity (fl_add m1 m2)) cos1))
     in
     bind_err (fl_pow2 (f_vel2 self)) (\<lambda>vel2sq.
     let num2 = fl_add num2 (fl_mul (fl_mul (fl_mul vel2sq l2) m2) cos12)
     in
     bind_err (fl_cos (fl_mul (Fin 2) (fl_sub (f_angle1 self) (f_angle2 self)))) (\<lambda>cos212.
     let den = fl_mul l1 (fl_sub (fl_add (fl_mul (Fin 2) m1) m2) (fl_mul m2 cos212))
     in
     bind_err (fl_div num1 den) (\<lambda>acc1.
     bind_err (fl_div num2 (fl_mul l2 den)) (\<lambda>acc2.
     Inr (acc1, acc2)))))))))))))))"

definition fl_bob1_position :: "Pendulum_fl \<Rightarrow> py_error + (pyfloat \<times> pyfloat)" where
  "fl_bob1_position self =
     bind_err (fl_sin (f_angle1 self)) (\<lambda>s.
     bind_err (fl_int (fl_mul (f_length1 self) s)) (\<lambda>ix.
     bind_err (fl_cos (f_angle1 self)) (\<lambda>c.
     bind_err (fl_int (fl_mul (f_length1 self) c)) (\<lambda>iy.
     Inr (fl_add (f_offsetX self) (Fin (of_int ix)),
          fl_add (f_offsetY self) (Fin (of_int iy)))))))"

definition fl_bob2_position :: "Pendulum_fl \<Rightarrow> py_error + (pyfloat \<times> pyfloat)" where
  "fl_bob2_position self =
     bind_err (fl_bob1_position self) (\<lambda>(p1x, p1y).
     bind_err (fl_sin (f_angle2 self)) (\<lambda>s.
     bind_err (fl_int (fl_mul (f_length2 self) s)) (\<lambda>ix.
     bind_err (fl_cos (f_angle2 self)) (\<lambda>c.
     bind_err (fl_int (fl_mul (f_length2 self) c)) (\<lambda>iy.
     Inr (fl_add p1x (Fin (of_int ix)), fl_add p1y (Fin (of_int iy))))))))"

definition Pendulum_update_fl :: "Pendulum_fl \<Rightarrow> pyfloat \<Rightarrow> pyfloat \<Rightarrow> Pendulum_fl \<times> py_error option" where
  "Pendulum_update_fl self deltaTime gravity =
     (if f_draggingBob self > 0 then (self, None)
      else
        case fl_accelerations self gravity of
          Inl e \<Rightarrow> (self, Some e)
        | Inr (acc1, acc2) \<Rightarrow>
            let self1 = self\<lparr>f_vel1 := fl_add (f_vel1 self) (fl_mul acc1 deltaTime)\<rparr>;
                self2 = self1\<lparr>f_vel2 := fl_add (f_vel2 self1) (fl_mul acc2 deltaTime)\<rparr>;
                self3 = self2\<lparr>f_angle1 := fl_add (f_angle1 self2) (fl_mul (f_vel1 self2) deltaTime)\<rparr>;
                self4 = self3\<lparr>f_angle2 := fl_add (f_angle2 self3) (fl_mul (f_vel2 self3) deltaTime)\<rparr>
            in (case f_pathTracer self4 of
                  None \<Rightarrow> (self4, None)
                | Some t \<Rightarrow>
                    (case fl_bob2_position self4 of
                       Inl e \<Rightarrow> (self4, Some e)
                     | Inr (p2x, p2y) \<Rightarrow>
                         (case PathTracer_call t ''addPoint'' [Flt p2x, Flt p2y, Flt deltaTime] of
                            Inl e \<Rightarrow> (self4, Some e)
                          | Inr t' \<Rightarrow> (self4\<lparr>f_pathTracer := Some t'\<rparr>, None)))))"

section \<open>pendulum\_system.py\<close>

text \<open>
  \<open>dragging_pendulum\<close> is a reference to an element of \<open>pendulums\<close>; it is represented by
  the position of that element in the list.
\<close>

record PendulumSystem =
  pendulums :: "Pendulum list"
  next_id :: int
  dragging_pendulum :: "nat option"
  gravity :: real
  time_scale :: real
  paused :: bool

definition PendulumSystem_init :: PendulumSystem where
  "PendulumSystem_init =
     \<lparr>pendulums = [], next_id = 0, dragging_pendulum = None,
      gravity = 9.8, time_scale = 1, paused = True\<rparr>"

definition createPendulum :: "PendulumSystem \<Rightarrow> PendulumParams \<Rightarrow> PendulumSystem \<times> (py_error + int)" where
  "createPendulum self params =
     (let pendulum = Pendulum_init;
          pendulum = pendulum\<lparr>pid := next_id self\<rparr>;
          self1 = self\<lparr>next_id := next_id self + 1\<rparr>
      in case Pendulum_initialize pendulum params of
           (pendulum', Some e) \<Rightarrow> (self1, Inl e)
         | (pendulum', None) \<Rightarrow>
             (self1\<lparr>pendulums := pendulums self1 @ [pendulum']\<rparr>, Inr (pid pendulum')))"

fun update_all :: "Pendulum list \<Rightarrow> real \<Rightarrow> real \<Rightarrow> Pendulum list \<times> py_error option" where
  \<comment> \<open>\<^verbatim>\<open>for pendulum in self.pendulums: pendulum.update(scaled_dt, self.gravity)\<close>\<close>
  "update_all [] dt g = ([], None)"
| "update_all (pendulum # rest) dt g =
     (case Pendulum_update pendulum dt g of
        (pendulum', Some e) \<Rightarrow> (pendulum' # rest, Some e)
      | (pendulum', None) \<Rightarrow>
          (case update_all rest dt g of (rest', e) \<Rightarrow> (pendulum' # rest', e)))"

definition PendulumSystem_update :: "PendulumSystem \<Rightarrow> real \<Rightarrow> PendulumSystem \<times> py_error option" where
  "PendulumSystem_update self deltaTime =
     (if paused self then (self, None)
      else
        let scaled_dt = deltaTime * time_scale self
        in case update_all (pendulums self) scaled_dt (gravity self) of
             (ps, e) \<Rightarrow> (self\<lparr>pendulums := ps\<rparr>, e))"

fun grab_reversed :: "nat \<Rightarrow> Pendulum list \<Rightarrow> real \<times> real \<Rightarrow> (nat \<times> Pendulum) option" where
  \<comment> \<open>\<^verbatim>\<open>for pendulum in reversed(self.pendulums)\<close>, over the first \<open>n\<close> elements:
      the position and new state of the first pendulum whose \<open>startDrag\<close> succeeds\<close>
  "grab_reversed 0 ps pos = None"
| "grab_reversed (Suc i) ps pos =
     (case startDrag (ps ! i) pos of
        (pendulum', True) \<Rightarrow> Some (i, pendulum')
      | (pendulum', False) \<Rightarrow> grab_reversed i ps pos)"

definition handleMouseDown :: "PendulumSystem \<Rightarrow> real \<times> real \<Rightarrow> PendulumSystem \<times> bool" where
  "handleMouseDown self pos =
     (case grab_reversed (length (pendulums self)) (pendulums self) pos of
        Some (i, pendulum') \<Rightarrow>
          (self\<lparr>pendulums := (pendulums self)[i := pendulum'], dragging_pendulum := Some i\<rparr>, True)
      | None \<Rightarrow> (self, False))"

definition handleMouseUp :: "PendulumSystem \<Rightarrow> PendulumSystem" where
  "handleMouseUp self =
     (case dragging_pendulum self of
        Some i \<Rightarrow> self\<lparr>pendulums := (pendulums self)[i := endDrag (pendulums self ! i)],
                       dragging_pendulum := None\<rparr>
      | None \<Rightarrow> self)"

definition setPaused :: "PendulumSystem \<Rightarrow> bool \<Rightarrow> PendulumSystem" where
  "setPaused self b = self\<lparr>paused := b\<rparr>"

definition setGravity :: "PendulumSystem \<Rightarrow> real \<Rightarrow> PendulumSystem" where
  "setGravity self g = self\<lparr>gravity := g\<rparr>"

definition setTimeScale :: "PendulumSystem \<Rightarrow> real \<Rightarrow> PendulumSystem" where
  "setTimeScale self scale = self\<lparr>time_scale := scale\<rparr>"

section \<open>physics\_engine.py\<close>

record PhysicsEngine =
  pendulum_system :: PendulumSystem
  default_params :: PendulumParams
  last_time :: real
  accumulated_time :: real
  min_step :: real

definition PhysicsEngine_init :: PhysicsEngine where
  "PhysicsEngine_init =
     \<lparr>pendulum_system = PendulumSystem_init, default_params = PendulumParams_init,
      last_time = 0, accumulated_time = 0, min_step = 1 / 240\<rparr>"

text \<open>
  The \<^verbatim>\<open>while\<close> loop of \<open>PhysicsEngine.update\<close>. It does not end when \<open>min_step\<close> is
  not positive and the accumulator is not below it: \<open>None\<close>. An exception of a system
  update leaves the loop before the accumulator is decremented.
\<close>

partial_function (option) fixed_steps :: "PhysicsEngine \<Rightarrow> (PhysicsEngine \<times> py_error option) option" where
  "fixed_steps self =
     (if accumulated_time self \<ge> min_step self then
        (case PendulumSystem_update (pendulum_system self) (min_step self) of
           (sys, Some e) \<Rightarrow> Some (self\<lparr>pendulum_system := sys\<rparr>, Some e)
         | (sys, None) \<Rightarrow>
             fixed_steps (self\<lparr>pendulum_system := sys,
                                accumulated_time := accumulated_time self - min_step self\<rparr>))
      else Some (self, None))"

definition PhysicsEngine_update :: "PhysicsEngine \<Rightarrow> int \<Rightarrow> (PhysicsEngine \<times> py_error option) option" where
  \<comment> \<open>\<open>ticks\<close> is what \<^verbatim>\<open>pygame.time.get_ticks()\<close> returns in this call\<close>
  "PhysicsEngine_update self ticks =
     (let current_time = of_int ticks / 1000;
          delta_time = current_time - last_time self;
          self1 = self\<lparr>last_time := current_time\<rparr>;
          delta_time = (if delta_time > 0.1 then 0.1 else delta_time);
          self2 = self1\<lparr>accumulated_time := accumulated_time self1 + delta_time\<rparr>
      in fixed_steps self2)"

section \<open>Notions used to state the properties\<close>

subsection \<open>The integrator as the specification words it\<close>

definition spec_num1 :: "real \<Rightarrow> real \<Rightarrow> real \<Rightarrow> real \<Rightarrow> real \<Rightarrow> real \<Rightarrow> real \<Rightarrow> real \<Rightarrow> real \<Rightarrow> real" where
  "spec_num1 g m1 m2 L1 L2 th1 th2 w1 w2 =
     - g * (2 * m1 + m2) * sin th1 - m2 * g * sin (th1 - 2 * th2)
     - 2 * sin (th1 - th2) * m2 * (w2\<^sup>2 * L2 + w1\<^sup>2 * L1 * cos (th1 - th2))"

definition spec_num2 :: "real \<Rightarrow> real \<Rightarrow> real \<Rightarrow> real \<Rightarrow> real \<Rightarrow> real \<Rightarrow> real \<Rightarrow> real \<Rightarrow> real \<Rightarrow> real" where
  "spec_num2 g m1 m2 L1 L2 th1 th2 w1 w2 =
     2 * sin (th1 - th2) * (w1\<^sup>2 * L1 * (m1 + m2) + g * (m1 + m2) * cos th1)
     + w2\<^sup>2 * L2 * m2 * cos (th1 - th2)"

definition spec_den :: "real \<Rightarrow> real \<Rightarrow> real \<Rightarrow> real \<Rightarrow> real \<Rightarrow> real" where
  "spec_den m1 m2 L1 th1 th2 = L1 * (2 * m1 + m2 - m2 * cos (2 * (th1 - th2)))"

definition spec_acc1 :: "real \<Rightarrow> Pendulum \<Rightarrow> real" where
  "spec_acc1 g s =
     spec_num1 g (mass1 s) (mass2 s) (length1 s) (length2 s) (angle1 s) (angle2 s) (vel1 s) (vel2 s)
       / spec_den (mass1 s) (mass2 s) (length1 s) (angle1 s) (angle2 s)"

definition spec_acc2 :: "real \<Rightarrow> Pendulum \<Rightarrow> real" where
  "spec_acc2 g s =
     spec_num2 g (mass1 s) (mass2 s) (length1 s) (length2 s) (angle1 s) (angle2 s) (vel1 s) (vel2 s)
       / (length2 s * spec_den (mass1 s) (mass2 s) (length1 s) (angle1 s) (angle2 s))"

definition spec_step :: "real \<Rightarrow> real \<Rightarrow> Pendulum \<Rightarrow> Pendulum" where
  \<comment> \<open>semi-implicit Euler: velocities from the old state, angles from the new velocities\<close>
  "spec_step g dt s =
     (let w1 = vel1 s + spec_acc1 g s * dt;
          w2 = vel2 s + spec_acc2 g s * dt
      in s\<lparr>vel1 := w1, vel2 := w2, angle1 := angle1 s + w1 * dt, angle2 := angle2 s + w2 * dt\<rparr>)"

subsection \<open>Hit circles\<close>

definition within_bob1 :: "Pendulum \<Rightarrow> real \<times> real \<Rightarrow> bool" where
  "within_bob1 s pos \<longleftrightarrow>
     sqrt ((fst pos - fst (calculate_bob1_position s))\<^sup>2
         + (snd pos - snd (calculate_bob1_position s))\<^sup>2) \<le> bobRadius1 s"

definition within_bob2 :: "Pendulum \<Rightarrow> real \<times> real \<Rightarrow> bool" where
  "within_bob2 s pos \<longleftrightarrow>
     sqrt ((fst pos - fst (calculate_bob2_position s))\<^sup>2
         + (snd pos - snd (calculate_bob2_position s))\<^sup>2) \<le> bobRadius2 s"

definition hit :: "Pendulum \<Rightarrow> real \<times> real \<Rightarrow> bool" where
  "hit s pos \<longleftrightarrow> within_bob2 s pos \<or> within_bob1 s pos"

subsection \<open>Repeated passes over the pendulums\<close>

text \<open>
  \<open>n\<close> successive passes of \<open>update_all\<close> with one step size, stopping at the first
  exception: the number of completed passes, the pendulums, the exception.
\<close>

fun integrate_n :: "nat \<Rightarrow> real \<Rightarrow> real \<Rightarrow> Pendulum list \<Rightarrow> nat \<times> Pendulum list \<times> py_error option" where
  "integrate_n 0 dt g ps = (0, ps, None)"
| "integrate_n (Suc n) dt g ps =
     (case update_all ps dt g of
        (ps', Some e) \<Rightarrow> (0, ps', Some e)
      | (ps', None) \<Rightarrow> (case integrate_n n dt g ps' of (k, ps'', e) \<Rightarrow> (Suc k, ps'', e)))"

text \<open>
  \<open>n\<close> successive calls of \<open>PendulumSystem.update\<close> with one argument, stopping at the
  first exception: the number of calls that returned, the system, the exception.
\<close>

fun system_updates :: "nat \<Rightarrow> real \<Rightarrow> PendulumSystem \<Rightarrow> nat \<times> PendulumSystem \<times> py_error option" where
  "system_updates 0 dt sys = (0, sys, None)"
| "system_updates (Suc n) dt sys =
     (case PendulumSystem_update sys dt of
        (sys', Some e) \<Rightarrow> (0, sys', Some e)
      | (sys', None) \<Rightarrow> (case system_updates n dt sys' of (k, sys'', e) \<Rightarrow> (Suc k, sys'', e)))"

subsection \<open>The exceptions a computation can raise\<close>

definition raises_within :: "py_error set \<Rightarrow> py_error + 'a \<Rightarrow> bool" where
  "raises_within E r \<longleftrightarrow> (case r of Inl e \<Rightarrow> e \<in> E | Inr x \<Rightarrow> True)"

subsection \<open>The trail\<close>

definition spec_decay :: "real \<Rightarrow> path_point \<Rightarrow> path_point" where
  \<comment> \<open>the opacity multiplied by the fade rate and floored\<close>
  "spec_decay rate pt = (case pt of (x, y, c, a) \<Rightarrow> (x, y, c, \<lfloor>of_int a * rate\<rfloor>))"

definition tracer_inv :: "PathTracer \<Rightarrow> bool" where
  "tracer_inv t \<longleftrightarrow>
     length (items (points t)) \<le> maxlen (points t) \<and>
     (\<forall>pt \<in> set (items (points t)). 0 \<le> point_alpha pt \<and> point_alpha pt \<le> 255) \<and>
     fade_rate t = 19 / 20 \<and> min_alpha t = 10"


section \<open>The trail buffer\<close>

lemma maxlen_deque_append: "maxlen (deque_append d x) = maxlen d"
  by (simp add: deque_append_def)

lemma length_deque_append:
  "length (items d) \<le> maxlen d \<Longrightarrow> length (items (deque_append d x)) \<le> maxlen d"
  by (cases "items d") (auto simp: deque_append_def)

lemma set_deque_append: "set (items (deque_append d x)) \<subseteq> insert x (set (items d))"
  by (cases "items d") (auto simp: deque_append_def)

lemma items_deque_append_room:
  "length (items d) < maxlen d \<Longrightarrow> items (deque_append d x) = items d @ [x]"
  by (simp add: deque_append_def)

lemma items_deque_append_full:
  "0 < maxlen d \<Longrightarrow> maxlen d \<le> length (items d) \<Longrightarrow> items (deque_append d x) = tl (items d) @ [x]"
  by (simp add: deque_append_def)

lemma fade_point_keep:
  assumes "0 \<le> point_alpha pt" "0 \<le> fade_rate t"
  shows "fade_point t d pt =
     (if min_alpha t < point_alpha (spec_decay (fade_rate t) pt)
      then deque_append d (spec_decay (fade_rate t) pt) else d)"
  using assms
  by (cases pt) (simp add: fade_point_def spec_decay_def point_alpha_def py_int_def Let_def)

lemma foldl_fade_point:
  assumes "\<forall>pt \<in> set xs. 0 \<le> point_alpha pt" "0 \<le> fade_rate t"
    and "length (items d) + length xs \<le> maxlen d"
  shows "items (foldl (fade_point t) d xs) =
           items d @ filter (\<lambda>pt. min_alpha t < point_alpha pt) (map (spec_decay (fade_rate t)) xs)
         \<and> maxlen (foldl (fade_point t) d xs) = maxlen d"
  using assms
proof (induction xs arbitrary: d)
  case Nil
  then show ?case by simp
next
  case (Cons pt xs)
  let ?d' = "fade_point t d pt"
  have step: "?d' = (if min_alpha t < point_alpha (spec_decay (fade_rate t) pt)
      then deque_append d (spec_decay (fade_rate t) pt) else d)"
    using Cons.prems by (simp add: fade_point_keep)
  have room: "length (items d) < maxlen d" using Cons.prems by simp
  have items': "items ?d' = items d @ filter (\<lambda>pt. min_alpha t < point_alpha pt) [spec_decay (fade_rate t) pt]"
    using step room by (simp add: items_deque_append_room)
  have maxlen': "maxlen ?d' = maxlen d"
    using step by (simp add: maxlen_deque_append)
  have "length (items ?d') + length xs \<le> maxlen ?d'"
    using items' maxlen' Cons.prems by simp
  with Cons.IH [of ?d'] Cons.prems
  have "items (foldl (fade_point t) ?d' xs) =
           items ?d' @ filter (\<lambda>pt. min_alpha t < point_alpha pt) (map (spec_decay (fade_rate t)) xs)
         \<and> maxlen (foldl (fade_point t) ?d' xs) = maxlen ?d'"
    by simp
  then show ?case using items' maxlen' by simp
qed

lemma PathTracer_update_items:
  assumes "tracer_inv t"
  shows "items (points (PathTracer_update t)) =
           filter (\<lambda>pt. min_alpha t < point_alpha pt) (map (spec_decay (fade_rate t)) (items (points t)))"
    and "maxlen (points (PathTracer_update t)) = maxlen (points t)"
proof -
  have a: "\<forall>pt \<in> set (items (points t)). 0 \<le> point_alpha pt" and r: "0 \<le> fade_rate t"
    and l: "length (items (deque_new (maxlen (points t)) :: path_point deque)) + length (items (points t))
              \<le> maxlen (deque_new (maxlen (points t)) :: path_point deque)"
    using assms by (auto simp: tracer_inv_def deque_new_def)
  from foldl_fade_point [OF a r l]
  show "items (points (PathTracer_update t)) =
           filter (\<lambda>pt. min_alpha t < point_alpha pt) (map (spec_decay (fade_rate t)) (items (points t)))"
    and "maxlen (points (PathTracer_update t)) = maxlen (points t)"
    by (auto simp: PathTracer_update_def deque_new_def)
qed

lemma spec_decay_range:
  assumes "0 \<le> point_alpha pt" "point_alpha pt \<le> 255" "0 \<le> r" "r \<le> 1"
  shows "0 \<le> point_alpha (spec_decay r pt) \<and> point_alpha (spec_decay r pt) \<le> 255"
proof -
  obtain x y c a where pt: "pt = (x, y, c, a)" by (cases pt) auto
  have a: "0 \<le> a" "a \<le> 255" using assms pt by (auto simp: point_alpha_def)
  have "of_int a * r \<le> of_int a * 1"
    using a assms by (intro mult_left_mono) auto
  then have "of_int a * r \<le> 255" using a by simp
  then have "\<lfloor>of_int a * r\<rfloor> \<le> 255" by (simp add: floor_le_iff)
  moreover have "0 \<le> \<lfloor>of_int a * r\<rfloor>" using a assms by simp
  ultimately show ?thesis by (simp add: pt spec_decay_def point_alpha_def)
qed

lemma tracer_inv_update: "tracer_inv t \<Longrightarrow> tracer_inv (PathTracer_update t)"
proof -
  assume inv: "tracer_inv t"
  have f: "fade_rate (PathTracer_update t) = fade_rate t" "min_alpha (PathTracer_update t) = min_alpha t"
    by (auto simp: PathTracer_update_def)
  have len: "length (items (points (PathTracer_update t))) \<le> maxlen (points (PathTracer_update t))"
    using inv PathTracer_update_items [OF inv]
    by (auto simp: tracer_inv_def intro: order_trans [OF length_filter_le])
  have rng: "\<forall>pt \<in> set (items (points (PathTracer_update t))). 0 \<le> point_alpha pt \<and> point_alpha pt \<le> 255"
    using inv spec_decay_range [of _ "fade_rate t"] PathTracer_update_items(1) [OF inv]
    by (auto simp: tracer_inv_def)
  show ?thesis using inv f len rng by (simp add: tracer_inv_def)
qed

lemma add_point_disabled: "\<not> enabled t \<Longrightarrow> add_point t position = t"
  by (simp add: add_point_def)

lemma add_point_points:
  assumes "enabled t"
  shows "\<exists>c. points (add_point t (x, y)) = deque_append (points t) (x, y, c, 255)"
proof (cases "rainbow_mode t")
  case True
  obtain r g b where "hsv_to_rgb (current_hue t) 1 1 = (r, g, b)"
    by (cases "hsv_to_rgb (current_hue t) 1 1") auto
  with True assms
  have "points (add_point t (x, y)) =
          deque_append (points t) (x, y, (py_int (r * 255), py_int (g * 255), py_int (b * 255)), 255)"
    by (simp add: add_point_def Let_def)
  then show ?thesis by blast
next
  case False
  with assms
  have "points (add_point t (x, y)) = deque_append (points t) (x, y, color t, 255)"
    by (simp add: add_point_def)
  then show ?thesis by blast
qed

lemma add_point_rates:
  "fade_rate (add_point t position) = fade_rate t \<and> min_alpha (add_point t position) = min_alpha t"
  by (cases position) (simp add: add_point_def Let_def split: prod.splits)

lemma tracer_inv_add_point:
  assumes inv: "tracer_inv t"
  shows "tracer_inv (add_point t position)"
proof (cases "enabled t")
  case False
  with inv show ?thesis by (simp add: add_point_disabled)
next
  case True
  obtain x y where pos: "position = (x, y)" by (cases position) auto
  from add_point_points [OF True, of x y]
  obtain c where pts: "points (add_point t position) = deque_append (points t) (x, y, c, 255)"
    using pos by auto
  have len: "length (items (deque_append (points t) (x, y, c, 255))) \<le> maxlen (points t)"
    using inv by (simp add: tracer_inv_def length_deque_append)
  have rng: "\<forall>pt \<in> set (items (deque_append (points t) (x, y, c, 255))).
               0 \<le> point_alpha pt \<and> point_alpha pt \<le> 255"
  proof
    fix pt assume "pt \<in> set (items (deque_append (points t) (x, y, c, 255)))"
    then have "pt = (x, y, c, 255) \<or> pt \<in> set (items (points t))"
      using set_deque_append [of "points t" "(x, y, c, 255)"] by auto
    then show "0 \<le> point_alpha pt \<and> point_alpha pt \<le> 255"
      using inv by (auto simp: tracer_inv_def point_alpha_def)
  qed
  show ?thesis
    using inv len rng add_point_rates [of t position]
    by (simp add: tracer_inv_def pts maxlen_deque_append)
qed

lemma tracer_inv_step: "tracer_inv t \<Longrightarrow> tracer_inv (tracer_step t c)"
  by (cases c)
     (auto simp: tracer_inv_update tracer_inv_add_point,
      auto simp: tracer_inv_def clear_def deque_clear_def set_color_def toggle_rainbow_mode_def
        set_enabled_def Let_def)

lemma tracer_inv_foldl: "tracer_inv t \<Longrightarrow> tracer_inv (foldl tracer_step t cs)"
  by (induction cs arbitrary: t) (auto simp: tracer_inv_step)

lemma tracer_inv_run: "tracer_inv (tracer_run n cs)"
  unfolding tracer_run_def
  by (rule tracer_inv_foldl) (simp add: tracer_inv_def PathTracer_init_def deque_new_def)

lemma maxlen_step: "tracer_inv t \<Longrightarrow> maxlen (points (tracer_step t c)) = maxlen (points t)"
  by (cases c)
     (auto simp: PathTracer_update_items add_point_def maxlen_deque_append clear_def deque_clear_def
        set_color_def toggle_rainbow_mode_def set_enabled_def Let_def split: prod.splits)

lemma maxlen_foldl: "tracer_inv t \<Longrightarrow> maxlen (points (foldl tracer_step t cs)) = maxlen (points t)"
  by (induction cs arbitrary: t) (auto simp: tracer_inv_step maxlen_step)

lemma maxlen_run: "maxlen (points (tracer_run n cs)) = n"
proof -
  have "tracer_inv (PathTracer_init n)"
    by (simp add: tracer_inv_def PathTracer_init_def deque_new_def)
  then show ?thesis
    unfolding tracer_run_def by (simp add: maxlen_foldl) (simp add: PathTracer_init_def deque_new_def)
qed

lemma add_point_items:
  assumes "enabled t" "0 < maxlen (points t)" "length (items (points t)) \<le> maxlen (points t)"
  shows "\<exists>c. items (points (add_point t (x, y))) =
           (if length (items (points t)) = maxlen (points t) then tl (items (points t))
            else items (points t)) @ [(x, y, c, 255)]"
proof -
  from add_point_points [OF assms(1), of x y]
  obtain c where "points (add_point t (x, y)) = deque_append (points t) (x, y, c, 255)" by auto
  then have "items (points (add_point t (x, y))) =
           (if length (items (points t)) = maxlen (points t) then tl (items (points t))
            else items (points t)) @ [(x, y, c, 255)]"
    using assms by (simp add: deque_append_def)
  then show ?thesis by blast
qed

text \<open>
  Claim C9. For every capacity and every sequence of calls on a freshly created tracer
  (appends, decays, clears, colour changes, rainbow toggles, enabling and disabling), the
  capacity stays the one given at creation, the number of stored points never exceeds it,
  and every stored opacity lies between 0 and 255. An append on the enabled tracer stores
  the point last with opacity 255, after dropping the oldest point if the buffer is full.
  A decay multiplies every opacity by the fade rate 0.95, floors it, and keeps exactly the
  points whose new opacity is above the threshold 10.
\<close>

theorem path_buffer_bounded:
  "maxlen (points (tracer_run n cs)) = n \<and>
   length (items (points (tracer_run n cs))) \<le> n \<and>
   (\<forall>pt \<in> set (items (points (tracer_run n cs))). 0 \<le> point_alpha pt \<and> point_alpha pt \<le> 255) \<and>
   (enabled (tracer_run n cs) \<and> 0 < n \<longrightarrow>
      (\<exists>c. items (points (add_point (tracer_run n cs) (x, y))) =
             (if length (items (points (tracer_run n cs))) = n
              then tl (items (points (tracer_run n cs)))
              else items (points (tracer_run n cs))) @ [(x, y, c, 255)])) \<and>
   items (points (PathTracer_update (tracer_run n cs))) =
     filter (\<lambda>pt. 10 < point_alpha pt)
       (map (spec_decay (19 / 20)) (items (points (tracer_run n cs))))"
proof -
  let ?t = "tracer_run n cs"
  have inv: "tracer_inv ?t" by (rule tracer_inv_run)
  have cap: "maxlen (points ?t) = n" by (rule maxlen_run)
  have len: "length (items (points ?t)) \<le> n"
    using inv cap by (simp add: tracer_inv_def)
  have rng: "\<forall>pt \<in> set (items (points ?t)). 0 \<le> point_alpha pt \<and> point_alpha pt \<le> 255"
    using inv by (simp add: tracer_inv_def)
  have app: "enabled ?t \<and> 0 < n \<longrightarrow>
      (\<exists>c. items (points (add_point ?t (x, y))) =
             (if length (items (points ?t)) = n then tl (items (points ?t))
              else items (points ?t)) @ [(x, y, c, 255)])"
    using add_point_items [of ?t x y] cap len by auto
  have dec: "items (points (PathTracer_update ?t)) =
     filter (\<lambda>pt. 10 < point_alpha pt) (map (spec_decay (19 / 20)) (items (points ?t)))"
  proof -
    have fr: "fade_rate ?t = 19 / 20" and ma: "min_alpha ?t = 10"
      using inv unfolding tracer_inv_def by blast+
    show ?thesis
      by (simp only: PathTracer_update_items(1) [OF inv] fr ma)
  qed
  from cap len rng app dec show ?thesis by blast
qed

theorem path_buffer_bounded_witness:
  "enabled (tracer_run 2 [Add_point (0, 0), Add_point (1, 1), Add_point (2, 2), Update]) \<and>
   items (points (tracer_run 2 [Add_point (0, 0), Add_point (1, 1), Add_point (2, 2), Update])) =
     [(1, 1, (255, 0, 0), 242), (2, 2, (255, 0, 0), 242)] \<and>
   (\<exists>c. items (points (add_point
            (tracer_run 2 [Add_point (0, 0), Add_point (1, 1), Add_point (2, 2), Update]) (3, 3))) =
          [(2, 2, (255, 0, 0), 242), (3, 3, c, 255)]) \<and>
   items (points (PathTracer_update
            (tracer_run 2 [Add_point (0, 0), Add_point (1, 1), Add_point (2, 2), Update]))) =
     [(1, 1, (255, 0, 0), 229), (2, 2, (255, 0, 0), 229)]"
proof -
  let ?t = "tracer_run 2 [Add_point (0, 0), Add_point (1, 1), Add_point (2, 2), Update]"
  have t: "?t = (PathTracer_init 2)\<lparr>points :=
             \<lparr>items = [(1, 1, (255, 0, 0), 242), (2, 2, (255, 0, 0), 242)], maxlen = 2\<rparr>\<rparr>"
    by (simp add: tracer_run_def PathTracer_init_def add_point_def PathTracer_update_def
          fade_point_def deque_append_def deque_new_def py_int_def)
  have e: "enabled ?t" and i: "items (points ?t) = [(1, 1, (255, 0, 0), 242), (2, 2, (255, 0, 0), 242)]"
    by (simp_all add: t PathTracer_init_def)
  from path_buffer_bounded [of 2 "[Add_point (0, 0), Add_point (1, 1), Add_point (2, 2), Update]" 3 3]
  show ?thesis
    using e by (simp add: i spec_decay_def point_alpha_def)
qed


section \<open>Creating and stepping a pendulum\<close>

lemma spec_den_pos:
  assumes "0 < m1" "0 < m2" "0 < L1"
  shows "0 < spec_den m1 m2 L1 th1 th2"
proof -
  define c where "c = cos (2 * (th1 - th2))"
  have "c \<le> 1" by (simp add: c_def)
  then have "m2 * c \<le> m2"
    using assms by simp
  then have "0 < 2 * m1 + m2 - m2 * c"
    using assms by linarith
  then have "0 < L1 * (2 * m1 + m2 - m2 * c)"
    using assms by simp
  then show ?thesis
    unfolding spec_den_def c_def .
qed

lemma addPoint_missing: "PathTracer_call t ''addPoint'' args = Inl (AttributeError ''addPoint'')"
  by (simp add: PathTracer_call_def)

lemma initialize_missing: "PathTracer_call t ''initialize'' args = Inl (AttributeError ''initialize'')"
  by (simp add: PathTracer_call_def)

lemma Pendulum_update_idle:
  assumes "draggingBob s \<le> 0"
    and "spec_den (mass1 s) (mass2 s) (length1 s) (angle1 s) (angle2 s) \<noteq> 0"
    and "length2 s \<noteq> 0"
  shows "Pendulum_update s dt g =
           (spec_step g dt s,
            case pathTracer s of None \<Rightarrow> None | Some t \<Rightarrow> Some (AttributeError ''addPoint''))"
  using assms
  by (simp add: Pendulum_update_def Let_def spec_step_def spec_acc1_def spec_acc2_def
        spec_num1_def spec_num2_def spec_den_def addPoint_missing
      split: option.split prod.split)

lemma Pendulum_update_valid:
  assumes "0 < mass1 s" "0 < mass2 s" "0 < length1 s" "0 < length2 s" "draggingBob s \<le> 0"
  shows "Pendulum_update s dt g =
           (spec_step g dt s,
            case pathTracer s of None \<Rightarrow> None | Some t \<Rightarrow> Some (AttributeError ''addPoint''))"
proof -
  have "spec_den (mass1 s) (mass2 s) (length1 s) (angle1 s) (angle2 s) \<noteq> 0"
    using spec_den_pos [of "mass1 s" "mass2 s" "length1 s" "angle1 s" "angle2 s"] assms by simp
  then show ?thesis using assms by (intro Pendulum_update_idle) auto
qed

lemma Pendulum_update_dragging: "0 < draggingBob s \<Longrightarrow> Pendulum_update s dt g = (s, None)"
  by (simp add: Pendulum_update_def)

lemma Pendulum_initialize_raises:
  "Pendulum_initialize s params =
     (s\<lparr>offsetX := p_offsetX params, offsetY := p_offsetY params,
        length1 := p_length1 params, length2 := p_length2 params,
        mass1 := p_mass1 params, mass2 := p_mass2 params,
        angle1 := p_angle1 params, angle2 := p_angle2 params,
        vel1 := p_velocity1 params, vel2 := p_velocity2 params,
        initial_angle1 := p_angle1 params, initial_angle2 := p_angle2 params,
        showWire := p_showWire params,
        pathTracer := Some (PathTracer_init 1000)\<rparr>,
      Some (AttributeError ''initialize''))"
  by (simp add: Pendulum_initialize_def Let_def initialize_missing)

lemma createPendulum_raises:
  "createPendulum sys params = (sys\<lparr>next_id := next_id sys + 1\<rparr>, Inl (AttributeError ''initialize''))"
  by (simp add: createPendulum_def Let_def Pendulum_initialize_raises)

text \<open>
  Claim C1, as the code has it. \<open>createPendulum\<close> validates nothing: for every parameter
  set, whatever the signs of its lengths and masses, the call never yields an
  \<open>InvalidParameter\<close> failure; it gives the new pendulum the id \<open>next_id\<close>, advances
  \<open>next_id\<close> by one, and \<open>initialize\<close> copies the lengths and masses of the parameter set
  into the pendulum as they are.
\<close>

theorem createPendulum_no_validation:
  "snd (createPendulum sys params) \<noteq> Inl InvalidParameter \<and>
   next_id (fst (createPendulum sys params)) = next_id sys + 1 \<and>
   pid (fst (Pendulum_initialize (Pendulum_init\<lparr>pid := next_id sys\<rparr>) params)) = next_id sys \<and>
   length1 (fst (Pendulum_initialize (Pendulum_init\<lparr>pid := next_id sys\<rparr>) params)) = p_length1 params \<and>
   length2 (fst (Pendulum_initialize (Pendulum_init\<lparr>pid := next_id sys\<rparr>) params)) = p_length2 params \<and>
   mass1 (fst (Pendulum_initialize (Pendulum_init\<lparr>pid := next_id sys\<rparr>) params)) = p_mass1 params \<and>
   mass2 (fst (Pendulum_initialize (Pendulum_init\<lparr>pid := next_id sys\<rparr>) params)) = p_mass2 params"
  by (simp add: createPendulum_raises Pendulum_initialize_raises)

text \<open>
  The claim as the specification words it fails: a parameter set with mass \<open>m1 = 0\<close> is
  not rejected with \<open>InvalidParameter\<close>; the id 0 has been used up and the pendulum has
  been given the mass 0 when the call ends.
\<close>

theorem createPendulum_validation_counterexample:
  "p_mass1 (PendulumParams_init\<lparr>p_mass1 := 0\<rparr>) \<le> 0 \<and>
   \<not> (snd (createPendulum PendulumSystem_init (PendulumParams_init\<lparr>p_mass1 := 0\<rparr>))
        = Inl InvalidParameter) \<and>
   next_id (fst (createPendulum PendulumSystem_init (PendulumParams_init\<lparr>p_mass1 := 0\<rparr>))) = 1 \<and>
   mass1 (fst (Pendulum_initialize (Pendulum_init\<lparr>pid := next_id PendulumSystem_init\<rparr>)
                 (PendulumParams_init\<lparr>p_mass1 := 0\<rparr>))) = 0"
  by (simp add: createPendulum_raises Pendulum_initialize_raises PendulumSystem_init_def)

text \<open>
  Claim C2. For every system and every parameter set, \<open>createPendulum\<close> ends with the
  \<open>AttributeError\<close> of the missing method \<open>PathTracer.initialize\<close>: no pendulum is
  appended, and \<open>next_id\<close> has been incremented.
\<close>

theorem createPendulum_always_raises:
  "createPendulum sys params =
     (sys\<lparr>next_id := next_id sys + 1\<rparr>, Inl (AttributeError ''initialize'')) \<and>
   pendulums (fst (createPendulum sys params)) = pendulums sys \<and>
   next_id (fst (createPendulum sys params)) = next_id sys + 1"
  by (simp add: createPendulum_raises)

text \<open>
  Claim C3. For a pendulum with positive masses and lengths that is not being dragged, one
  call of \<open>update\<close> leaves the state that the specification's formulas give: the
  accelerations \<open>num1 / den\<close> and \<open>num2 / (L2 * den)\<close>, the velocities advanced from the
  old state, the angles advanced with the new velocities. From both angles \<open>pi / 4\<close> and
  both velocities 0 the new velocities are \<open>acc1 * dt\<close> and \<open>acc2 * dt\<close>.
\<close>

theorem update_is_semi_implicit_euler:
  assumes "0 < mass1 s" "0 < mass2 s" "0 < length1 s" "0 < length2 s"
    and "draggingBob s = 0"
  shows "fst (Pendulum_update s dt g) =
           s\<lparr>vel1 := vel1 s + spec_acc1 g s * dt,
             vel2 := vel2 s + spec_acc2 g s * dt,
             angle1 := angle1 s + (vel1 s + spec_acc1 g s * dt) * dt,
             angle2 := angle2 s + (vel2 s + spec_acc2 g s * dt) * dt\<rparr> \<and>
         (angle1 s = pi / 4 \<and> angle2 s = pi / 4 \<and> vel1 s = 0 \<and> vel2 s = 0 \<longrightarrow>
            vel1 (fst (Pendulum_update s dt g)) = spec_acc1 g s * dt \<and>
            vel2 (fst (Pendulum_update s dt g)) = spec_acc2 g s * dt)"
  using assms by (simp add: Pendulum_update_valid spec_step_def Let_def)

theorem update_is_semi_implicit_euler_witness:
  "vel1 (fst (Pendulum_update
      (Pendulum_init\<lparr>length1 := 120, length2 := 120, angle1 := pi / 4, angle2 := pi / 4\<rparr>)
      (1 / 240) 9.81)) = - (9.81 * sqrt 2 / 2 / 120) * (1 / 240) \<and>
   vel2 (fst (Pendulum_update
      (Pendulum_init\<lparr>length1 := 120, length2 := 120, angle1 := pi / 4, angle2 := pi / 4\<rparr>)
      (1 / 240) 9.81)) = 0"
proof -
  let ?s = "Pendulum_init\<lparr>length1 := 120, length2 := 120, angle1 := pi / 4, angle2 := pi / 4\<rparr>"
  have h: "0 < mass1 ?s" "0 < mass2 ?s" "0 < length1 ?s" "0 < length2 ?s" "draggingBob ?s = 0"
    by (simp_all add: Pendulum_init_def)
  have a: "angle1 ?s = pi / 4 \<and> angle2 ?s = pi / 4 \<and> vel1 ?s = 0 \<and> vel2 ?s = 0"
    by (simp add: Pendulum_init_def)
  have m: "sin (pi / 4 - 2 * (pi / 4)) = - (sqrt 2 / 2)"
  proof -
    have "pi / 4 - 2 * (pi / 4) = - (pi / 4)" by simp
    then show ?thesis by (simp add: sin_45)
  qed
  have a1: "spec_acc1 9.81 ?s = - (9.81 * sqrt 2 / 2 / 120)"
    by (simp add: spec_acc1_def spec_num1_def spec_den_def Pendulum_init_def sin_45 m)
  have a2: "spec_acc2 9.81 ?s = 0"
    by (simp add: spec_acc2_def spec_num2_def spec_den_def Pendulum_init_def)
  note r = update_is_semi_implicit_euler [OF h, of "1 / 240" "9.81", unfolded a1 a2]
  from r a show ?thesis by simp
qed

text \<open>
  Claim C10, as the code has it. For a pendulum that is not being dragged and has a path
  tracer, \<open>update\<close> ends with the \<open>AttributeError\<close> of the missing method \<open>addPoint\<close>
  exactly when the accelerations can be computed, that is when the denominator and
  \<open>L2\<close> are not zero, as they are for positive masses and lengths. The exception comes
  after the velocities and angles have been advanced: the state it leaves is the advanced
  one, with the tracer as it was, and a step of a running system whose first pendulum is
  such a pendulum ends with the same exception. With a zero denominator or \<open>L2 = 0\<close>
  the call ends with \<open>ZeroDivisionError\<close> before any assignment.
\<close>

theorem update_raises_after_mutation:
  assumes "draggingBob s = 0" and "pathTracer s = Some t"
  shows "(spec_den (mass1 s) (mass2 s) (length1 s) (angle1 s) (angle2 s) \<noteq> 0 \<and> length2 s \<noteq> 0 \<longrightarrow>
            Pendulum_update s dt g =
              (s\<lparr>vel1 := vel1 s + spec_acc1 g s * dt,
                 vel2 := vel2 s + spec_acc2 g s * dt,
                 angle1 := angle1 s + (vel1 s + spec_acc1 g s * dt) * dt,
                 angle2 := angle2 s + (vel2 s + spec_acc2 g s * dt) * dt\<rparr>,
               Some (AttributeError ''addPoint'')) \<and>
            pathTracer (fst (Pendulum_update s dt g)) = Some t \<and>
            (\<not> paused sys \<and> pendulums sys = s # rest \<longrightarrow>
               PendulumSystem_update sys dt =
                 (sys\<lparr>pendulums := spec_step (gravity sys) (dt * time_scale sys) s # rest\<rparr>,
                  Some (AttributeError ''addPoint'')))) \<and>
         (spec_den (mass1 s) (mass2 s) (length1 s) (angle1 s) (angle2 s) = 0 \<or> length2 s = 0 \<longrightarrow>
            Pendulum_update s dt g = (s, Some ZeroDivisionError)) \<and>
         (0 < mass1 s \<and> 0 < mass2 s \<and> 0 < length1 s \<and> 0 < length2 s \<longrightarrow>
            spec_den (mass1 s) (mass2 s) (length1 s) (angle1 s) (angle2 s) \<noteq> 0 \<and> length2 s \<noteq> 0)"
proof -
  let ?den = "spec_den (mass1 s) (mass2 s) (length1 s) (angle1 s) (angle2 s)"
  have idle: "draggingBob s \<le> 0" using assms(1) by simp
  have ok: "?den \<noteq> 0 \<and> length2 s \<noteq> 0 \<longrightarrow>
            Pendulum_update s dt g =
              (s\<lparr>vel1 := vel1 s + spec_acc1 g s * dt,
                 vel2 := vel2 s + spec_acc2 g s * dt,
                 angle1 := angle1 s + (vel1 s + spec_acc1 g s * dt) * dt,
                 angle2 := angle2 s + (vel2 s + spec_acc2 g s * dt) * dt\<rparr>,
               Some (AttributeError ''addPoint'')) \<and>
            pathTracer (fst (Pendulum_update s dt g)) = Some t \<and>
            (\<not> paused sys \<and> pendulums sys = s # rest \<longrightarrow>
               PendulumSystem_update sys dt =
                 (sys\<lparr>pendulums := spec_step (gravity sys) (dt * time_scale sys) s # rest\<rparr>,
                  Some (AttributeError ''addPoint'')))"
  proof
    assume d: "?den \<noteq> 0 \<and> length2 s \<noteq> 0"
    then have u: "\<And>dt g. Pendulum_update s dt g =
           (spec_step g dt s, Some (AttributeError ''addPoint''))"
      using Pendulum_update_idle [OF idle] assms(2) by simp
    show "Pendulum_update s dt g =
              (s\<lparr>vel1 := vel1 s + spec_acc1 g s * dt,
                 vel2 := vel2 s + spec_acc2 g s * dt,
                 angle1 := angle1 s + (vel1 s + spec_acc1 g s * dt) * dt,
                 angle2 := angle2 s + (vel2 s + spec_acc2 g s * dt) * dt\<rparr>,
               Some (AttributeError ''addPoint'')) \<and>
            pathTracer (fst (Pendulum_update s dt g)) = Some t \<and>
            (\<not> paused sys \<and> pendulums sys = s # rest \<longrightarrow>
               PendulumSystem_update sys dt =
                 (sys\<lparr>pendulums := spec_step (gravity sys) (dt * time_scale sys) s # rest\<rparr>,
                  Some (AttributeError ''addPoint'')))"
      using assms(2) by (simp add: u spec_step_def Let_def PendulumSystem_update_def)
  qed
  have zero: "?den = 0 \<or> length2 s = 0 \<longrightarrow> Pendulum_update s dt g = (s, Some ZeroDivisionError)"
    using assms(1) by (auto simp: Pendulum_update_def Let_def spec_den_def)
  have pos: "0 < mass1 s \<and> 0 < mass2 s \<and> 0 < length1 s \<and> 0 < length2 s \<longrightarrow>
            ?den \<noteq> 0 \<and> length2 s \<noteq> 0"
    using spec_den_pos [of "mass1 s" "mass2 s" "length1 s" "angle1 s" "angle2 s"] by auto
  from ok zero pos show ?thesis by blast
qed

theorem update_raises_after_mutation_witness:
  "Pendulum_update
     (Pendulum_init\<lparr>angle1 := pi / 2, pathTracer := Some (PathTracer_init 1000)\<rparr>) (1 / 240) 9.8 =
     (Pendulum_init\<lparr>angle1 := pi / 2 - 49 / 500 / 240 / 240, vel1 := - (49 / 500) / 240,
                     pathTracer := Some (PathTracer_init 1000)\<rparr>,
      Some (AttributeError ''addPoint'')) \<and>
   Pendulum_update
     (Pendulum_init\<lparr>length2 := 0, pathTracer := Some (PathTracer_init 1000)\<rparr>) (1 / 240) 9.8 =
     (Pendulum_init\<lparr>length2 := 0, pathTracer := Some (PathTracer_init 1000)\<rparr>,
      Some ZeroDivisionError)"
proof -
  let ?s = "Pendulum_init\<lparr>angle1 := pi / 2, pathTracer := Some (PathTracer_init 1000)\<rparr>"
  let ?z = "Pendulum_init\<lparr>length2 := 0, pathTracer := Some (PathTracer_init 1000)\<rparr>"
  have h: "draggingBob ?s = 0" "pathTracer ?s = Some (PathTracer_init 1000)"
    by (simp_all add: Pendulum_init_def)
  have p: "0 < mass1 ?s \<and> 0 < mass2 ?s \<and> 0 < length1 ?s \<and> 0 < length2 ?s"
    by (simp add: Pendulum_init_def)
  have a1: "spec_acc1 9.8 ?s = - (49 / 500)"
    by (simp add: spec_acc1_def spec_num1_def spec_den_def Pendulum_init_def)
  have a2: "spec_acc2 9.8 ?s = 0"
    by (simp add: spec_acc2_def spec_num2_def spec_den_def Pendulum_init_def)
  note r = update_raises_after_mutation [OF h, of "1 / 240" "9.8", unfolded a1 a2]
  from r p have first: "Pendulum_update ?s (1 / 240) 9.8 =
     (Pendulum_init\<lparr>angle1 := pi / 2 - 49 / 500 / 240 / 240, vel1 := - (49 / 500) / 240,
                     pathTracer := Some (PathTracer_init 1000)\<rparr>,
      Some (AttributeError ''addPoint''))"
    by (simp add: Pendulum_init_def)
  have hz: "draggingBob ?z = 0" "pathTracer ?z = Some (PathTracer_init 1000)"
    by (simp_all add: Pendulum_init_def)
  have z: "length2 ?z = 0" by simp
  from update_raises_after_mutation [OF hz, of "1 / 240" "9.8"] z
  have second: "Pendulum_update ?z (1 / 240) 9.8 = (?z, Some ZeroDivisionError)"
    by blast
  from first second show ?thesis by simp
qed

text \<open>
  The claim as the specification words it fails: a pendulum with both masses 0, not
  dragged and with a tracer, is left unchanged by \<open>update\<close>, which ends with
  \<open>ZeroDivisionError\<close>.
\<close>

theorem update_raises_counterexample:
  "draggingBob (Pendulum_init\<lparr>mass1 := 0, mass2 := 0, pathTracer := Some (PathTracer_init 1000)\<rparr>) = 0 \<and>
   pathTracer (Pendulum_init\<lparr>mass1 := 0, mass2 := 0, pathTracer := Some (PathTracer_init 1000)\<rparr>)
     = Some (PathTracer_init 1000) \<and>
   Pendulum_update
     (Pendulum_init\<lparr>mass1 := 0, mass2 := 0, pathTracer := Some (PathTracer_init 1000)\<rparr>) (1 / 240) 9.8 =
     (Pendulum_init\<lparr>mass1 := 0, mass2 := 0, pathTracer := Some (PathTracer_init 1000)\<rparr>,
      Some ZeroDivisionError) \<and>
   \<not> (snd (Pendulum_update
     (Pendulum_init\<lparr>mass1 := 0, mass2 := 0, pathTracer := Some (PathTracer_init 1000)\<rparr>) (1 / 240) 9.8)
        = Some (AttributeError ''addPoint''))"
  by (simp add: Pendulum_update_def Pendulum_init_def Let_def)

section \<open>Grabbing a pendulum\<close>

lemma sqrt_le_radius: "0 \<le> r \<Longrightarrow> sqrt x \<le> r \<longleftrightarrow> x \<le> r\<^sup>2"
proof -
  assume r: "0 \<le> r"
  have "sqrt x \<le> r \<longleftrightarrow> sqrt x \<le> sqrt (r\<^sup>2)" using r by simp
  also have "\<dots> \<longleftrightarrow> x \<le> r\<^sup>2" by (rule real_sqrt_le_iff)
  finally show ?thesis .
qed

lemma startDrag_hit:
  "startDrag s pos =
     (if within_bob2 s pos then (s\<lparr>draggingBob := 2\<rparr>, True)
      else if within_bob1 s pos then (s\<lparr>draggingBob := 1\<rparr>, True)
      else (s, False))"
  by (simp add: startDrag_def within_bob1_def within_bob2_def Let_def power2_eq_square
      split: prod.split)

lemma startDrag_grabbed:
  "hit s pos \<Longrightarrow>
     startDrag s pos = (s\<lparr>draggingBob := (if within_bob2 s pos then 2 else 1)\<rparr>, True)"
  by (auto simp: startDrag_hit hit_def)

lemma startDrag_missed: "\<not> hit s pos \<Longrightarrow> startDrag s pos = (s, False)"
  by (simp add: startDrag_hit hit_def)

lemma grab_reversed_None:
  "(\<forall>j < n. \<not> hit (ps ! j) pos) \<Longrightarrow> grab_reversed n ps pos = None"
  by (induction n) (simp_all add: startDrag_missed)

lemma grab_reversed_Some:
  assumes "i < n" "hit (ps ! i) pos" "\<forall>j. i < j \<and> j < n \<longrightarrow> \<not> hit (ps ! j) pos"
  shows "grab_reversed n ps pos =
           Some (i, (ps ! i)\<lparr>draggingBob := (if within_bob2 (ps ! i) pos then 2 else 1)\<rparr>)"
  using assms
proof (induction n)
  case 0
  then show ?case by simp
next
  case (Suc n)
  show ?case
  proof (cases "i = n")
    case True
    with Suc.prems show ?thesis by (simp add: startDrag_grabbed)
  next
    case False
    with Suc.prems have "i < n" and "\<not> hit (ps ! n) pos" by auto
    with Suc show ?thesis by (simp add: startDrag_missed)
  qed
qed

lemma grab_reversed_SomeD:
  assumes "grab_reversed n ps pos = Some (i, s')"
  shows "i < n \<and> hit (ps ! i) pos \<and>
         s' = (ps ! i)\<lparr>draggingBob := (if within_bob2 (ps ! i) pos then 2 else 1)\<rparr>"
  using assms
proof (induction n)
  case 0
  then show ?case by simp
next
  case (Suc n)
  show ?case
  proof (cases "hit (ps ! n) pos")
    case True
    with Suc.prems show ?thesis by (auto simp: startDrag_grabbed)
  next
    case False
    with Suc.prems have "grab_reversed n ps pos = Some (i, s')"
      by (simp add: startDrag_missed)
    with Suc.IH show ?thesis by auto
  qed
qed

lemma handleMouseDown_cases:
  "(\<exists>i < length (pendulums sys). hit (pendulums sys ! i) pos \<and>
      handleMouseDown sys pos =
        (sys\<lparr>pendulums := (pendulums sys)
                [i := (pendulums sys ! i)\<lparr>draggingBob :=
                        (if within_bob2 (pendulums sys ! i) pos then 2 else 1)\<rparr>],
              dragging_pendulum := Some i\<rparr>, True))
   \<or> handleMouseDown sys pos = (sys, False)"
proof (cases "grab_reversed (length (pendulums sys)) (pendulums sys) pos")
  case None
  then show ?thesis by (simp add: handleMouseDown_def)
next
  case (Some r)
  obtain i s' where r: "r = (i, s')" by (cases r) auto
  from grab_reversed_SomeD [OF Some [unfolded r]] Some r
  show ?thesis by (auto simp: handleMouseDown_def)
qed

text \<open>
  Claim C5, as the code has it. \<open>handleMouseDown\<close> releases nobody: a call that grabs a
  pendulum records it as \<open>dragging_pendulum\<close>, sets its drag state to 1 or 2 and leaves
  every other pendulum as it was, a pendulum that was being dragged included. So only the
  grabbed pendulum is being dragged after the call if none was being dragged before it.
\<close>

theorem handleMouseDown_changes_grabbed_only:
  assumes "handleMouseDown sys pos = (sys', True)"
  shows "\<exists>i < length (pendulums sys).
           dragging_pendulum sys' = Some i \<and>
           length (pendulums sys') = length (pendulums sys) \<and>
           draggingBob (pendulums sys' ! i) \<in> {1, 2} \<and>
           (\<forall>j < length (pendulums sys). j \<noteq> i \<longrightarrow> pendulums sys' ! j = pendulums sys ! j) \<and>
           ((\<forall>j < length (pendulums sys). draggingBob (pendulums sys ! j) = 0) \<longrightarrow>
            (\<forall>j < length (pendulums sys). j \<noteq> i \<longrightarrow> draggingBob (pendulums sys' ! j) = 0))"
proof -
  from handleMouseDown_cases [of sys pos] assms
  obtain i where i: "i < length (pendulums sys)"
    and sys': "sys' = sys\<lparr>pendulums := (pendulums sys)
                [i := (pendulums sys ! i)\<lparr>draggingBob :=
                        (if within_bob2 (pendulums sys ! i) pos then 2 else 1)\<rparr>],
              dragging_pendulum := Some i\<rparr>"
    by auto
  have "dragging_pendulum sys' = Some i \<and>
           length (pendulums sys') = length (pendulums sys) \<and>
           draggingBob (pendulums sys' ! i) \<in> {1, 2} \<and>
           (\<forall>j < length (pendulums sys). j \<noteq> i \<longrightarrow> pendulums sys' ! j = pendulums sys ! j)"
    using i by (simp add: sys')
  then show ?thesis using i by auto
qed

lemma far_bob_A: "\<not> sqrt 250000 \<le> (10::real)" "\<not> sqrt 260000 \<le> (10::real)"
  by (simp_all add: sqrt_le_radius)

theorem handleMouseDown_changes_grabbed_only_witness:
  "\<exists>i < length (pendulums (PendulumSystem_init\<lparr>pendulums := [Pendulum_init, Pendulum_init\<lparr>offsetX := 500\<rparr>]\<rparr>)).
     dragging_pendulum
       (PendulumSystem_init\<lparr>pendulums := [Pendulum_init\<lparr>draggingBob := 2\<rparr>, Pendulum_init\<lparr>offsetX := 500\<rparr>],
                            dragging_pendulum := Some 0\<rparr>) = Some i \<and>
     draggingBob
       (pendulums (PendulumSystem_init\<lparr>pendulums := [Pendulum_init\<lparr>draggingBob := 2\<rparr>, Pendulum_init\<lparr>offsetX := 500\<rparr>],
                            dragging_pendulum := Some 0\<rparr>) ! i) \<in> {1, 2} \<and>
     (\<forall>j < length (pendulums (PendulumSystem_init\<lparr>pendulums := [Pendulum_init, Pendulum_init\<lparr>offsetX := 500\<rparr>]\<rparr>)).
        j \<noteq> i \<longrightarrow>
        draggingBob
          (pendulums (PendulumSystem_init\<lparr>pendulums := [Pendulum_init\<lparr>draggingBob := 2\<rparr>, Pendulum_init\<lparr>offsetX := 500\<rparr>],
                            dragging_pendulum := Some 0\<rparr>) ! j) = 0)"
proof -
  let ?sys = "PendulumSystem_init\<lparr>pendulums := [Pendulum_init, Pendulum_init\<lparr>offsetX := 500\<rparr>]\<rparr>"
  let ?sys' = "PendulumSystem_init\<lparr>pendulums := [Pendulum_init\<lparr>draggingBob := 2\<rparr>, Pendulum_init\<lparr>offsetX := 500\<rparr>],
                            dragging_pendulum := Some 0\<rparr>"
  have h: "handleMouseDown ?sys (0, 200) = (?sys', True)"
    by (simp add: handleMouseDown_def startDrag_def calculate_bob1_position_def
          calculate_bob2_position_def Pendulum_init_def PendulumSystem_init_def py_int_def
          far_bob_A)
  have idle: "\<forall>j < length (pendulums ?sys). draggingBob (pendulums ?sys ! j) = 0"
    by (auto simp: Pendulum_init_def less_Suc_eq)
  from handleMouseDown_changes_grabbed_only [OF h] idle
  show ?thesis by blast
qed

text \<open>
  The claim as the specification words it fails: a pointer-down grabs pendulum A, a second
  one grabs pendulum B, and both are being dragged after it.
\<close>

theorem single_drag_owner_counterexample:
  "handleMouseDown
     (PendulumSystem_init\<lparr>pendulums := [Pendulum_init, Pendulum_init\<lparr>offsetX := 500\<rparr>]\<rparr>) (0, 200) =
     (PendulumSystem_init\<lparr>pendulums := [Pendulum_init\<lparr>draggingBob := 2\<rparr>, Pendulum_init\<lparr>offsetX := 500\<rparr>],
                          dragging_pendulum := Some 0\<rparr>, True) \<and>
   handleMouseDown
     (PendulumSystem_init\<lparr>pendulums := [Pendulum_init\<lparr>draggingBob := 2\<rparr>, Pendulum_init\<lparr>offsetX := 500\<rparr>],
                          dragging_pendulum := Some 0\<rparr>) (500, 200) =
     (PendulumSystem_init\<lparr>pendulums := [Pendulum_init\<lparr>draggingBob := 2\<rparr>,
                                         Pendulum_init\<lparr>offsetX := 500, draggingBob := 2\<rparr>],
                          dragging_pendulum := Some 1\<rparr>, True) \<and>
   \<not> (draggingBob (Pendulum_init\<lparr>draggingBob := 2\<rparr>) = 0)"
  by (simp add: handleMouseDown_def startDrag_def calculate_bob1_position_def
        calculate_bob2_position_def Pendulum_init_def PendulumSystem_init_def py_int_def
        far_bob_A)

text \<open>
  Claim C8, as the code has it. \<open>handleMouseDown\<close> tries the pendulums from the last
  created to the first; for each, the outer bob before the inner one, by Euclidean
  distance at most the bob's radius. The last pendulum in creation order that is hit gets
  drag state 2 if the point lies in its outer circle (also when it lies in both circles)
  and 1 otherwise, is recorded as \<open>dragging_pendulum\<close>, and the call returns true; with
  no pendulum hit the call changes nothing and returns false. No call changes an angular
  velocity.
\<close>

theorem handleMouseDown_first_hit:
  "(i < length (pendulums sys) \<and> hit (pendulums sys ! i) pos \<and>
    (\<forall>j. i < j \<and> j < length (pendulums sys) \<longrightarrow> \<not> hit (pendulums sys ! j) pos) \<longrightarrow>
      handleMouseDown sys pos =
        (sys\<lparr>pendulums := (pendulums sys)
                [i := (pendulums sys ! i)\<lparr>draggingBob :=
                        (if within_bob2 (pendulums sys ! i) pos then 2 else 1)\<rparr>],
              dragging_pendulum := Some i\<rparr>, True)) \<and>
   ((\<forall>j < length (pendulums sys). \<not> hit (pendulums sys ! j) pos) \<longrightarrow>
      handleMouseDown sys pos = (sys, False)) \<and>
   (\<forall>j < length (pendulums sys).
      vel1 (pendulums (fst (handleMouseDown sys pos)) ! j) = vel1 (pendulums sys ! j) \<and>
      vel2 (pendulums (fst (handleMouseDown sys pos)) ! j) = vel2 (pendulums sys ! j))"
proof -
  have grab: "i < length (pendulums sys) \<and> hit (pendulums sys ! i) pos \<and>
    (\<forall>j. i < j \<and> j < length (pendulums sys) \<longrightarrow> \<not> hit (pendulums sys ! j) pos) \<longrightarrow>
      handleMouseDown sys pos =
        (sys\<lparr>pendulums := (pendulums sys)
                [i := (pendulums sys ! i)\<lparr>draggingBob :=
                        (if within_bob2 (pendulums sys ! i) pos then 2 else 1)\<rparr>],
              dragging_pendulum := Some i\<rparr>, True)"
  proof
    assume a: "i < length (pendulums sys) \<and> hit (pendulums sys ! i) pos \<and>
      (\<forall>j. i < j \<and> j < length (pendulums sys) \<longrightarrow> \<not> hit (pendulums sys ! j) pos)"
    then have "grab_reversed (length (pendulums sys)) (pendulums sys) pos =
           Some (i, (pendulums sys ! i)\<lparr>draggingBob :=
                        (if within_bob2 (pendulums sys ! i) pos then 2 else 1)\<rparr>)"
      by (intro grab_reversed_Some) blast+
    then show "handleMouseDown sys pos =
        (sys\<lparr>pendulums := (pendulums sys)
                [i := (pendulums sys ! i)\<lparr>draggingBob :=
                        (if within_bob2 (pendulums sys ! i) pos then 2 else 1)\<rparr>],
              dragging_pendulum := Some i\<rparr>, True)"
      by (simp only: handleMouseDown_def option.case prod.case)
  qed
  have miss: "(\<forall>j < length (pendulums sys). \<not> hit (pendulums sys ! j) pos) \<longrightarrow>
      handleMouseDown sys pos = (sys, False)"
    by (simp add: handleMouseDown_def grab_reversed_None)
  have vel: "\<forall>j < length (pendulums sys).
      vel1 (pendulums (fst (handleMouseDown sys pos)) ! j) = vel1 (pendulums sys ! j) \<and>
      vel2 (pendulums (fst (handleMouseDown sys pos)) ! j) = vel2 (pendulums sys ! j)"
  proof (intro allI impI)
    fix j assume j: "j < length (pendulums sys)"
    from handleMouseDown_cases [of sys pos]
    show "vel1 (pendulums (fst (handleMouseDown sys pos)) ! j) = vel1 (pendulums sys ! j) \<and>
      vel2 (pendulums (fst (handleMouseDown sys pos)) ! j) = vel2 (pendulums sys ! j)"
    proof
      assume "\<exists>i < length (pendulums sys). hit (pendulums sys ! i) pos \<and>
        handleMouseDown sys pos =
          (sys\<lparr>pendulums := (pendulums sys)
                [i := (pendulums sys ! i)\<lparr>draggingBob :=
                        (if within_bob2 (pendulums sys ! i) pos then 2 else 1)\<rparr>],
              dragging_pendulum := Some i\<rparr>, True)"
      then obtain k where "k < length (pendulums sys)"
        and "handleMouseDown sys pos =
          (sys\<lparr>pendulums := (pendulums sys)
                [k := (pendulums sys ! k)\<lparr>draggingBob :=
                        (if within_bob2 (pendulums sys ! k) pos then 2 else 1)\<rparr>],
              dragging_pendulum := Some k\<rparr>, True)"
        by blast
      then show ?thesis using j by (cases "j = k") simp_all
    next
      assume "handleMouseDown sys pos = (sys, False)"
      then show ?thesis by simp
    qed
  qed
  from grab miss vel show ?thesis by blast
qed

theorem handleMouseDown_first_hit_witness:
  "within_bob1 (Pendulum_init\<lparr>length2 := 5, vel2 := 1\<rparr>) (0, 102) \<and>
   within_bob2 (Pendulum_init\<lparr>length2 := 5, vel2 := 1\<rparr>) (0, 102) \<and>
   handleMouseDown (PendulumSystem_init\<lparr>pendulums := [Pendulum_init\<lparr>length2 := 5, vel2 := 1\<rparr>]\<rparr>) (0, 102) =
     (PendulumSystem_init\<lparr>pendulums := [Pendulum_init\<lparr>length2 := 5, vel2 := 1, draggingBob := 2\<rparr>],
                          dragging_pendulum := Some 0\<rparr>, True)"
proof -
  let ?s = "Pendulum_init\<lparr>length2 := 5, vel2 := 1\<rparr>"
  let ?sys = "PendulumSystem_init\<lparr>pendulums := [?s]\<rparr>"
  have b1: "within_bob1 ?s (0, 102)"
    by (simp add: within_bob1_def calculate_bob1_position_def Pendulum_init_def py_int_def
          sqrt_le_radius)
  have b2: "within_bob2 ?s (0, 102)"
    by (simp add: within_bob2_def calculate_bob1_position_def calculate_bob2_position_def
          Pendulum_init_def py_int_def sqrt_le_radius)
  have h: "0 < length (pendulums ?sys) \<and> hit (pendulums ?sys ! 0) (0, 102) \<and>
    (\<forall>j. 0 < j \<and> j < length (pendulums ?sys) \<longrightarrow> \<not> hit (pendulums ?sys ! j) (0, 102))"
    using b2 by (auto simp: hit_def)
  from handleMouseDown_first_hit [of 0 ?sys "(0, 102)"] h
  have "handleMouseDown ?sys (0, 102) =
        (?sys\<lparr>pendulums := (pendulums ?sys)
                [0 := (pendulums ?sys ! 0)\<lparr>draggingBob :=
                        (if within_bob2 (pendulums ?sys ! 0) (0, 102) then 2 else 1)\<rparr>],
              dragging_pendulum := Some 0\<rparr>, True)"
    by blast
  then show ?thesis using b1 b2 by simp
qed

text \<open>
  The claim as the specification words it fails: the grab of the outer bob leaves the
  velocity of the outer joint as it was.
\<close>

theorem grab_zeroes_velocity_counterexample:
  "snd (handleMouseDown (PendulumSystem_init\<lparr>pendulums := [Pendulum_init\<lparr>length2 := 5, vel2 := 1\<rparr>]\<rparr>) (0, 102)) \<and>
   draggingBob (pendulums (fst (handleMouseDown
       (PendulumSystem_init\<lparr>pendulums := [Pendulum_init\<lparr>length2 := 5, vel2 := 1\<rparr>]\<rparr>) (0, 102))) ! 0) = 2 \<and>
   \<not> (vel2 (pendulums (fst (handleMouseDown
       (PendulumSystem_init\<lparr>pendulums := [Pendulum_init\<lparr>length2 := 5, vel2 := 1\<rparr>]\<rparr>) (0, 102))) ! 0) = 0)"
  by (simp add: handleMouseDown_def startDrag_def calculate_bob1_position_def
        calculate_bob2_position_def Pendulum_init_def PendulumSystem_init_def py_int_def
        sqrt_le_radius)

section \<open>The fixed-step loop\<close>

lemma no_step_due:
  assumes "0 < ms" "nat \<lfloor>a / ms\<rfloor> = 0"
  shows "a < (ms::real)"
proof -
  from assms(2) have "\<lfloor>a / ms\<rfloor> < 1" by simp
  then have "a / ms < 1" by (simp add: floor_less_iff)
  with assms(1) show ?thesis by (simp add: pos_divide_less_eq)
qed

lemma step_due:
  assumes "0 < ms" "nat \<lfloor>a / ms\<rfloor> = Suc n"
  shows "(ms::real) \<le> a \<and> nat \<lfloor>(a - ms) / ms\<rfloor> = n"
proof -
  from assms(2) have "1 \<le> \<lfloor>a / ms\<rfloor>" by linarith
  then have "1 \<le> a / ms" by (simp add: le_floor_iff)
  with assms(1) have le: "ms \<le> a" by (simp add: pos_le_divide_eq)
  have "(a - ms) / ms = a / ms - 1"
    using assms(1) by (simp add: diff_divide_distrib)
  then have "\<lfloor>(a - ms) / ms\<rfloor> = \<lfloor>a / ms\<rfloor> - 1" by simp
  with assms(2) have "nat \<lfloor>(a - ms) / ms\<rfloor> = n" by simp
  with le show ?thesis by simp
qed

lemma remainder_below_step:
  assumes "0 < (ms::real)"
  shows "a - of_nat (nat \<lfloor>a / ms\<rfloor>) * ms < ms \<and> (0 \<le> a \<longrightarrow> 0 \<le> a - of_nat (nat \<lfloor>a / ms\<rfloor>) * ms)"
proof (cases "0 \<le> a")
  case True
  then have q: "0 \<le> a / ms" using assms by simp
  then have n: "real (nat \<lfloor>a / ms\<rfloor>) = of_int \<lfloor>a / ms\<rfloor>" by simp
  have "of_int \<lfloor>a / ms\<rfloor> * ms \<le> a / ms * ms"
    using assms by (intro mult_right_mono) auto
  then have lo: "of_int \<lfloor>a / ms\<rfloor> * ms \<le> a"
    using assms by simp
  have "a / ms < of_int \<lfloor>a / ms\<rfloor> + 1" by linarith
  then have "a / ms * ms < (of_int \<lfloor>a / ms\<rfloor> + 1) * ms"
    using assms by (intro mult_strict_right_mono) auto
  then have "a < (of_int \<lfloor>a / ms\<rfloor> + 1) * ms"
    using assms by simp
  then have hi: "a - of_int \<lfloor>a / ms\<rfloor> * ms < ms" by (simp add: algebra_simps)
  from lo hi show ?thesis by (simp add: n)
next
  case False
  then have "a / ms < 0" using assms by (simp add: divide_neg_pos)
  then have "\<lfloor>a / ms\<rfloor> < 0" by (simp add: floor_less_iff)
  then have "nat \<lfloor>a / ms\<rfloor> = 0" by simp
  with False assms show ?thesis by simp
qed

lemma PendulumSystem_update_paused: "paused sys \<Longrightarrow> PendulumSystem_update sys dt = (sys, None)"
  by (simp add: PendulumSystem_update_def)

lemma PendulumSystem_update_running:
  "\<not> paused sys \<Longrightarrow>
     PendulumSystem_update sys dt =
       (case update_all (pendulums sys) (dt * time_scale sys) (gravity sys) of
          (ps, err) \<Rightarrow> (sys\<lparr>pendulums := ps\<rparr>, err))"
  by (simp add: PendulumSystem_update_def Let_def)

lemma fixed_steps_paused:
  assumes "0 < min_step e" "paused (pendulum_system e)"
    and "nat \<lfloor>accumulated_time e / min_step e\<rfloor> = n"
  shows "fixed_steps e =
           Some (e\<lparr>accumulated_time := accumulated_time e - of_nat n * min_step e\<rparr>, None)"
  using assms
proof (induction n arbitrary: e)
  case 0
  then have "accumulated_time e < min_step e" by (auto intro: no_step_due)
  then show ?case by (subst fixed_steps.simps) simp
next
  case (Suc n)
  let ?e' = "e\<lparr>pendulum_system := pendulum_system e,
                accumulated_time := accumulated_time e - min_step e\<rparr>"
  from step_due [OF Suc.prems(1) Suc.prems(3)]
  have due: "min_step e \<le> accumulated_time e"
    and rest: "nat \<lfloor>(accumulated_time e - min_step e) / min_step e\<rfloor> = n" by auto
  have "fixed_steps ?e' =
          Some (?e'\<lparr>accumulated_time := accumulated_time ?e' - of_nat n * min_step ?e'\<rparr>, None)"
    using Suc.prems rest by (intro Suc.IH) simp_all
  then have "fixed_steps ?e' =
          Some (e\<lparr>accumulated_time := accumulated_time e - of_nat (Suc n) * min_step e\<rparr>, None)"
    by (simp add: algebra_simps)
  then show ?case
    using due Suc.prems(2)
    by (subst fixed_steps.simps) (simp add: PendulumSystem_update_paused)
qed

lemma fixed_steps_running:
  assumes "0 < min_step e" "\<not> paused (pendulum_system e)"
    and "nat \<lfloor>accumulated_time e / min_step e\<rfloor> = n"
  shows "fixed_steps e =
           Some (case integrate_n n (min_step e * time_scale (pendulum_system e))
                        (gravity (pendulum_system e)) (pendulums (pendulum_system e)) of
                   (k, ps, err) \<Rightarrow>
                     (e\<lparr>pendulum_system := (pendulum_system e)\<lparr>pendulums := ps\<rparr>,
                        accumulated_time := accumulated_time e - of_nat k * min_step e\<rparr>, err))"
  using assms
proof (induction n arbitrary: e)
  case 0
  then have "accumulated_time e < min_step e" by (auto intro: no_step_due)
  then show ?case by (subst fixed_steps.simps) simp
next
  case (Suc n)
  let ?sys = "pendulum_system e"
  let ?dt = "min_step e * time_scale ?sys"
  from step_due [OF Suc.prems(1) Suc.prems(3)]
  have due: "min_step e \<le> accumulated_time e"
    and rest: "nat \<lfloor>(accumulated_time e - min_step e) / min_step e\<rfloor> = n" by auto
  obtain ps err where pass: "update_all (pendulums ?sys) ?dt (gravity ?sys) = (ps, err)"
    by (cases "update_all (pendulums ?sys) ?dt (gravity ?sys)") auto
  then have upd: "PendulumSystem_update ?sys (min_step e) = (?sys\<lparr>pendulums := ps\<rparr>, err)"
    using Suc.prems(2) by (simp add: PendulumSystem_update_running)
  show ?case
  proof (cases err)
    case (Some x)
    with due upd pass show ?thesis
      by (subst fixed_steps.simps) simp
  next
    case None
    let ?e' = "e\<lparr>pendulum_system := ?sys\<lparr>pendulums := ps\<rparr>,
                  accumulated_time := accumulated_time e - min_step e\<rparr>"
    have "fixed_steps ?e' =
           Some (case integrate_n n (min_step ?e' * time_scale (pendulum_system ?e'))
                        (gravity (pendulum_system ?e')) (pendulums (pendulum_system ?e')) of
                   (k, ps', err') \<Rightarrow>
                     (?e'\<lparr>pendulum_system := (pendulum_system ?e')\<lparr>pendulums := ps'\<rparr>,
                         accumulated_time := accumulated_time ?e' - of_nat k * min_step ?e'\<rparr>, err'))"
      using Suc.prems rest by (intro Suc.IH) simp_all
    then have "fixed_steps ?e' =
           Some (case integrate_n n ?dt (gravity ?sys) ps of
                   (k, ps', err') \<Rightarrow>
                     (e\<lparr>pendulum_system := ?sys\<lparr>pendulums := ps'\<rparr>,
                        accumulated_time := accumulated_time e - of_nat (Suc k) * min_step e\<rparr>, err'))"
      by (simp add: algebra_simps split: prod.split)
    with due upd pass None show ?thesis
      by (subst fixed_steps.simps) (simp split: prod.split)
  qed
qed

lemma integrate_n_count:
  "integrate_n n dt g ps = (k, ps', err) \<Longrightarrow> k \<le> n \<and> (err = None \<longrightarrow> k = n)"
proof (induction n arbitrary: ps k ps' err)
  case 0
  then show ?case by simp
next
  case (Suc n)
  obtain qs e1 where pass: "update_all ps dt g = (qs, e1)"
    by (cases "update_all ps dt g") auto
  show ?case
  proof (cases e1)
    case (Some x)
    with pass Suc.prems show ?thesis by auto
  next
    case None
    obtain k1 ps1 err1 where r: "integrate_n n dt g qs = (k1, ps1, err1)"
      by (cases "integrate_n n dt g qs") auto
    from Suc.IH [OF r] pass None r Suc.prems show ?thesis by auto
  qed
qed

lemma PhysicsEngine_update_loop:
  "PhysicsEngine_update e ticks =
     fixed_steps (e\<lparr>last_time := of_int ticks / 1000,
                     accumulated_time :=
                       accumulated_time e + min (of_int ticks / 1000 - last_time e) (1 / 10)\<rparr>)"
  by (simp add: PhysicsEngine_update_def Let_def min_def)

text \<open>
  Claim C6, as the code has it. \<open>PhysicsEngine.update\<close> hands the fixed \<open>min_step\<close> to
  every \<open>PendulumSystem.update\<close>, and that method multiplies it by the time scale before
  it reaches the integrator: with time scale \<open>scale\<close> a running engine makes its passes
  over the pendulums with the step \<open>min_step * scale\<close>. The accumulator receives the
  clamped delta without the time scale, so the number \<open>n\<close> of passes that are due does
  not depend on it.
\<close>

theorem time_scale_scales_every_step:
  assumes "0 < min_step e" "\<not> paused (pendulum_system e)"
    and "A = accumulated_time e + min (of_int ticks / 1000 - last_time e) (1 / 10)"
    and "n = nat \<lfloor>A / min_step e\<rfloor>"
  shows "PendulumSystem_update (setTimeScale (pendulum_system e) scale) dt =
           (case update_all (pendulums (pendulum_system e)) (dt * scale)
                   (gravity (pendulum_system e)) of
              (ps, err) \<Rightarrow> ((setTimeScale (pendulum_system e) scale)\<lparr>pendulums := ps\<rparr>, err)) \<and>
         PhysicsEngine_update (e\<lparr>pendulum_system := setTimeScale (pendulum_system e) scale\<rparr>) ticks =
           Some (case integrate_n n (min_step e * scale) (gravity (pendulum_system e))
                        (pendulums (pendulum_system e)) of
                   (k, ps, err) \<Rightarrow>
                     (e\<lparr>last_time := of_int ticks / 1000,
                        pendulum_system := (setTimeScale (pendulum_system e) scale)\<lparr>pendulums := ps\<rparr>,
                        accumulated_time := A - of_nat k * min_step e\<rparr>, err))"
proof -
  let ?sys = "setTimeScale (pendulum_system e) scale"
  let ?e = "e\<lparr>pendulum_system := ?sys\<rparr>"
  let ?e1 = "?e\<lparr>last_time := of_int ticks / 1000, accumulated_time := A\<rparr>"
  have run: "\<not> paused ?sys" using assms(2) by (simp add: setTimeScale_def)
  have one: "PendulumSystem_update ?sys dt =
           (case update_all (pendulums (pendulum_system e)) (dt * scale)
                   (gravity (pendulum_system e)) of
              (ps, err) \<Rightarrow> (?sys\<lparr>pendulums := ps\<rparr>, err))"
    using PendulumSystem_update_running [OF run, of dt] by (simp add: setTimeScale_def)
  have loop: "PhysicsEngine_update ?e ticks = fixed_steps ?e1"
    by (simp add: PhysicsEngine_update_loop assms(3))
  have "fixed_steps ?e1 =
           Some (case integrate_n n (min_step ?e1 * time_scale (pendulum_system ?e1))
                        (gravity (pendulum_system ?e1)) (pendulums (pendulum_system ?e1)) of
                   (k, ps, err) \<Rightarrow>
                     (?e1\<lparr>pendulum_system := (pendulum_system ?e1)\<lparr>pendulums := ps\<rparr>,
                        accumulated_time := accumulated_time ?e1 - of_nat k * min_step ?e1\<rparr>, err))"
    using assms(1) run assms(4) by (intro fixed_steps_running) simp_all
  then have "fixed_steps ?e1 =
           Some (case integrate_n n (min_step e * scale) (gravity (pendulum_system e))
                        (pendulums (pendulum_system e)) of
                   (k, ps, err) \<Rightarrow>
                     (e\<lparr>last_time := of_int ticks / 1000,
                        pendulum_system := ?sys\<lparr>pendulums := ps\<rparr>,
                        accumulated_time := A - of_nat k * min_step e\<rparr>, err))"
    by (simp add: setTimeScale_def split: prod.split)
  with one loop show ?thesis by simp
qed

lemma quarter_turn_acc:
  "spec_acc1 (49 / 5) (Pendulum_init\<lparr>angle1 := pi / 2\<rparr>) = - (49 / 500)"
  "spec_acc2 (49 / 5) (Pendulum_init\<lparr>angle1 := pi / 2\<rparr>) = 0"
  by (simp_all add: spec_acc1_def spec_acc2_def spec_num1_def spec_num2_def spec_den_def
        Pendulum_init_def)

lemma quarter_turn_step:
  "Pendulum_update (Pendulum_init\<lparr>angle1 := pi / 2\<rparr>) dt (49 / 5) =
     (Pendulum_init\<lparr>vel1 := - (49 / 500) * dt, angle1 := pi / 2 - 49 / 500 * dt * dt\<rparr>, None)"
proof -
  let ?s = "Pendulum_init\<lparr>angle1 := pi / 2\<rparr>"
  have "0 < mass1 ?s" "0 < mass2 ?s" "0 < length1 ?s" "0 < length2 ?s" "draggingBob ?s \<le> 0"
    by (simp_all add: Pendulum_init_def)
  then have "Pendulum_update ?s dt (49 / 5) =
           (spec_step (49 / 5) dt ?s,
            case pathTracer ?s of None \<Rightarrow> None | Some t \<Rightarrow> Some (AttributeError ''addPoint''))"
    by (rule Pendulum_update_valid)
  then show ?thesis
    by (simp add: spec_step_def quarter_turn_acc) (simp add: Pendulum_init_def)
qed

theorem time_scale_scales_every_step_witness:
  "PhysicsEngine_update
     (PhysicsEngine_init\<lparr>pendulum_system :=
        setTimeScale (PendulumSystem_init\<lparr>pendulums := [Pendulum_init\<lparr>angle1 := pi / 2\<rparr>],
                                           paused := False\<rparr>) 2\<rparr>) 5 =
   Some (PhysicsEngine_init\<lparr>last_time := 1 / 200,
           pendulum_system :=
             PendulumSystem_init\<lparr>pendulums :=
                 [Pendulum_init\<lparr>vel1 := - (49 / 500) / 120,
                                 angle1 := pi / 2 - 49 / 500 / 120 / 120\<rparr>],
               paused := False, time_scale := 2\<rparr>,
           accumulated_time := 1 / 200 - 1 / 240\<rparr>, None)"
proof -
  let ?sys = "PendulumSystem_init\<lparr>pendulums := [Pendulum_init\<lparr>angle1 := pi / 2\<rparr>], paused := False\<rparr>"
  let ?e = "PhysicsEngine_init\<lparr>pendulum_system := ?sys\<rparr>"
  have h: "0 < min_step ?e" "\<not> paused (pendulum_system ?e)"
    "1 / 200 = accumulated_time ?e + min (of_int 5 / 1000 - last_time ?e) (1 / 10)"
    "Suc 0 = nat \<lfloor>(1 / 200) / min_step ?e\<rfloor>"
    by (simp_all add: PhysicsEngine_init_def)
  have g: "gravity (pendulum_system ?e) = 49 / 5" "min_step ?e * 2 = 1 / 120"
    "pendulums (pendulum_system ?e) = [Pendulum_init\<lparr>angle1 := pi / 2\<rparr>]"
    by (simp_all add: PhysicsEngine_init_def PendulumSystem_init_def)
  have pass: "integrate_n (Suc 0) (1 / 120) (49 / 5) [Pendulum_init\<lparr>angle1 := pi / 2\<rparr>] =
      (Suc 0, [Pendulum_init\<lparr>vel1 := - (49 / 500) / 120,
                              angle1 := pi / 2 - 49 / 500 / 120 / 120\<rparr>], None)"
    by (simp add: quarter_turn_step)
  note r = time_scale_scales_every_step [OF h, of 2 "1 / 240", unfolded g pass]
  from r show ?thesis
    by (simp add: PhysicsEngine_init_def PendulumSystem_init_def setTimeScale_def)
qed

text \<open>
  The claim as the specification words it fails: with time scale 2 the one step that is
  due is integrated with \<open>2 / 240\<close>, and the pendulum it leaves is not the one a step of
  \<open>1 / 240\<close> leaves.
\<close>

theorem fixed_step_size_counterexample:
  "PendulumSystem_update
     (PendulumSystem_init\<lparr>pendulums := [Pendulum_init\<lparr>angle1 := pi / 2\<rparr>],
                          paused := False, time_scale := 2\<rparr>) (1 / 240) =
     (PendulumSystem_init\<lparr>pendulums := [fst (Pendulum_update (Pendulum_init\<lparr>angle1 := pi / 2\<rparr>)
                                               (2 / 240) (49 / 5))],
                          paused := False, time_scale := 2\<rparr>, None) \<and>
   \<not> (fst (Pendulum_update (Pendulum_init\<lparr>angle1 := pi / 2\<rparr>) (2 / 240) (49 / 5)) =
        fst (Pendulum_update (Pendulum_init\<lparr>angle1 := pi / 2\<rparr>) (1 / 240) (49 / 5)))"
proof -
  have "vel1 (fst (Pendulum_update (Pendulum_init\<lparr>angle1 := pi / 2\<rparr>) (2 / 240) (49 / 5))) \<noteq>
        vel1 (fst (Pendulum_update (Pendulum_init\<lparr>angle1 := pi / 2\<rparr>) (1 / 240) (49 / 5)))"
    by (simp add: quarter_turn_step)
  then have ne: "\<not> (fst (Pendulum_update (Pendulum_init\<lparr>angle1 := pi / 2\<rparr>) (2 / 240) (49 / 5)) =
        fst (Pendulum_update (Pendulum_init\<lparr>angle1 := pi / 2\<rparr>) (1 / 240) (49 / 5)))"
    by metis
  have "PendulumSystem_update
     (PendulumSystem_init\<lparr>pendulums := [Pendulum_init\<lparr>angle1 := pi / 2\<rparr>],
                          paused := False, time_scale := 2\<rparr>) (1 / 240) =
     (PendulumSystem_init\<lparr>pendulums := [fst (Pendulum_update (Pendulum_init\<lparr>angle1 := pi / 2\<rparr>)
                                               (2 / 240) (49 / 5))],
                          paused := False, time_scale := 2\<rparr>, None)"
    by (simp add: PendulumSystem_update_def PendulumSystem_init_def quarter_turn_step)
  with ne show ?thesis by blast
qed

lemma system_updates_paused: "paused sys \<Longrightarrow> system_updates n dt sys = (n, sys, None)"
  by (induction n) (simp_all add: PendulumSystem_update_paused)

lemma system_updates_running:
  "\<not> paused sys \<Longrightarrow>
     system_updates n dt sys =
       (case integrate_n n (dt * time_scale sys) (gravity sys) (pendulums sys) of
          (k, ps, err) \<Rightarrow> (k, sys\<lparr>pendulums := ps\<rparr>, err))"
proof (induction n arbitrary: sys)
  case 0
  then show ?case by simp
next
  case (Suc n)
  obtain ps err where pass: "update_all (pendulums sys) (dt * time_scale sys) (gravity sys) = (ps, err)"
    by (cases "update_all (pendulums sys) (dt * time_scale sys) (gravity sys)") auto
  then have upd: "PendulumSystem_update sys dt = (sys\<lparr>pendulums := ps\<rparr>, err)"
    using Suc.prems by (simp add: PendulumSystem_update_running)
  show ?case
  proof (cases err)
    case (Some x)
    with upd pass show ?thesis by simp
  next
    case None
    have "system_updates n dt (sys\<lparr>pendulums := ps\<rparr>) =
       (case integrate_n n (dt * time_scale (sys\<lparr>pendulums := ps\<rparr>)) (gravity (sys\<lparr>pendulums := ps\<rparr>))
               (pendulums (sys\<lparr>pendulums := ps\<rparr>)) of
          (k, ps', err) \<Rightarrow> (k, sys\<lparr>pendulums := ps\<rparr>\<lparr>pendulums := ps'\<rparr>, err))"
      using Suc.prems by (intro Suc.IH) simp
    with upd pass None show ?thesis by (simp split: prod.split)
  qed
qed

lemma system_updates_count:
  "system_updates n dt sys = (k, sys', err) \<Longrightarrow>
     k \<le> n \<and> (err = None \<longrightarrow> k = n) \<and> (err \<noteq> None \<longrightarrow> k < n)"
proof (induction n arbitrary: sys k sys' err)
  case 0
  then show ?case by simp
next
  case (Suc n)
  obtain s1 e1 where upd: "PendulumSystem_update sys dt = (s1, e1)"
    by (cases "PendulumSystem_update sys dt") auto
  show ?case
  proof (cases e1)
    case (Some x)
    with upd Suc.prems show ?thesis by auto
  next
    case None
    obtain k1 s2 err1 where r: "system_updates n dt s1 = (k1, s2, err1)"
      by (cases "system_updates n dt s1") auto
    from Suc.IH [OF r] upd None r Suc.prems show ?thesis by auto
  qed
qed

lemma fixed_steps_system_updates:
  assumes "0 < min_step e"
    and "nat \<lfloor>accumulated_time e / min_step e\<rfloor> = n"
  shows "fixed_steps e =
           Some (case system_updates n (min_step e) (pendulum_system e) of
                   (k, sys, err) \<Rightarrow>
                     (e\<lparr>pendulum_system := sys,
                        accumulated_time := accumulated_time e - of_nat k * min_step e\<rparr>, err))"
  using assms
proof (induction n arbitrary: e)
  case 0
  then have "accumulated_time e < min_step e" by (auto intro: no_step_due)
  then show ?case by (subst fixed_steps.simps) simp
next
  case (Suc n)
  from step_due [OF Suc.prems(1) Suc.prems(2)]
  have due: "min_step e \<le> accumulated_time e"
    and rest: "nat \<lfloor>(accumulated_time e - min_step e) / min_step e\<rfloor> = n" by auto
  obtain sys err where upd: "PendulumSystem_update (pendulum_system e) (min_step e) = (sys, err)"
    by (cases "PendulumSystem_update (pendulum_system e) (min_step e)") auto
  show ?case
  proof (cases err)
    case (Some x)
    with due upd show ?thesis
      by (subst fixed_steps.simps) simp
  next
    case None
    let ?e' = "e\<lparr>pendulum_system := sys, accumulated_time := accumulated_time e - min_step e\<rparr>"
    have "fixed_steps ?e' =
           Some (case system_updates n (min_step ?e') (pendulum_system ?e') of
                   (k, sys', err') \<Rightarrow>
                     (?e'\<lparr>pendulum_system := sys',
                         accumulated_time := accumulated_time ?e' - of_nat k * min_step ?e'\<rparr>, err'))"
      using Suc.prems rest by (intro Suc.IH) simp_all
    then have "fixed_steps ?e' =
           Some (case system_updates n (min_step e) sys of
                   (k, sys', err') \<Rightarrow>
                     (e\<lparr>pendulum_system := sys',
                        accumulated_time := accumulated_time e - of_nat (Suc k) * min_step e\<rparr>, err'))"
      by (simp add: algebra_simps split: prod.split)
    with due upd None show ?thesis
      by (subst fixed_steps.simps) (simp split: prod.split)
  qed
qed

lemma unconsumed_step:
  assumes "0 < (ms::real)" "k < nat \<lfloor>a / ms\<rfloor>"
  shows "ms \<le> a - of_nat k * ms"
proof -
  from assms(2) have "int k + 1 \<le> \<lfloor>a / ms\<rfloor>" by linarith
  then have "of_int (int k + 1) \<le> a / ms" by (simp only: le_floor_iff)
  then have "of_int (int k + 1) * ms \<le> a / ms * ms"
    using assms(1) by (intro mult_right_mono) auto
  then have "(of_nat k + 1) * ms \<le> a" using assms(1) by simp
  then show ?thesis by (simp add: algebra_simps)
qed

text \<open>
  Claim C7, as the code has it. \<open>PhysicsEngine.update\<close> clamps the delta to at most
  0.1 s and adds it, without the time scale and whether the system is paused or not, to
  the accumulator \<open>A\<close>. With a positive \<open>min_step\<close> the loop ends. As long as the
  accumulator is not below \<open>min_step\<close> it calls \<open>PendulumSystem.update\<close> with
  \<open>min_step\<close> and, when the call returns, takes one \<open>min_step\<close> from the accumulator:
  the engine is left as \<open>n = floor (A / min_step)\<close> successive system updates leave it,
  of which \<open>k\<close> returned. If none raises, \<open>k = n\<close> and the remainder is below
  \<open>min_step\<close> (and not negative if \<open>A\<close> is not). If one raises, the loop ends with that
  exception, \<open>k < n\<close>, and the accumulator still holds at least one \<open>min_step\<close>.
  Paused, every system update returns at once and touches no pendulum; running, each is a
  pass over the pendulums with the step \<open>min_step * time_scale\<close>.
\<close>

theorem engine_update_accumulates:
  assumes "0 < min_step e"
    and "A = accumulated_time e + min (of_int ticks / 1000 - last_time e) (1 / 10)"
    and "n = nat \<lfloor>A / min_step e\<rfloor>"
  shows "PhysicsEngine_update e ticks =
           Some (case system_updates n (min_step e) (pendulum_system e) of
                   (k, sys, err) \<Rightarrow>
                     (e\<lparr>last_time := of_int ticks / 1000,
                        pendulum_system := sys,
                        accumulated_time := A - of_nat k * min_step e\<rparr>, err)) \<and>
         (\<forall>k sys err. system_updates n (min_step e) (pendulum_system e) = (k, sys, err) \<longrightarrow>
            k \<le> n \<and>
            (err = None \<longrightarrow> k = n \<and> A - of_nat k * min_step e < min_step e) \<and>
            (err \<noteq> None \<longrightarrow> k < n \<and> min_step e \<le> A - of_nat k * min_step e)) \<and>
         (paused (pendulum_system e) \<longrightarrow>
            system_updates n (min_step e) (pendulum_system e) = (n, pendulum_system e, None)) \<and>
         (\<not> paused (pendulum_system e) \<longrightarrow>
            system_updates n (min_step e) (pendulum_system e) =
              (case integrate_n n (min_step e * time_scale (pendulum_system e))
                      (gravity (pendulum_system e)) (pendulums (pendulum_system e)) of
                 (k, ps, err) \<Rightarrow> (k, (pendulum_system e)\<lparr>pendulums := ps\<rparr>, err))) \<and>
         A - of_nat n * min_step e < min_step e \<and>
         (0 \<le> A \<longrightarrow> 0 \<le> A - of_nat n * min_step e)"
proof -
  let ?e1 = "e\<lparr>last_time := of_int ticks / 1000, accumulated_time := A\<rparr>"
  have loop: "PhysicsEngine_update e ticks = fixed_steps ?e1"
    by (simp add: PhysicsEngine_update_loop assms(2))
  have n: "nat \<lfloor>accumulated_time ?e1 / min_step ?e1\<rfloor> = n"
    by (simp add: assms(3))
  have "fixed_steps ?e1 =
           Some (case system_updates n (min_step ?e1) (pendulum_system ?e1) of
                   (k, sys, err) \<Rightarrow>
                     (?e1\<lparr>pendulum_system := sys,
                        accumulated_time := accumulated_time ?e1 - of_nat k * min_step ?e1\<rparr>, err))"
    using assms(1) n by (intro fixed_steps_system_updates) simp_all
  then have run: "PhysicsEngine_update e ticks =
           Some (case system_updates n (min_step e) (pendulum_system e) of
                   (k, sys, err) \<Rightarrow>
                     (e\<lparr>last_time := of_int ticks / 1000,
                        pendulum_system := sys,
                        accumulated_time := A - of_nat k * min_step e\<rparr>, err))"
    by (simp add: loop split: prod.split)
  have rem: "A - of_nat n * min_step e < min_step e \<and> (0 \<le> A \<longrightarrow> 0 \<le> A - of_nat n * min_step e)"
    using remainder_below_step [OF assms(1), of A] by (simp add: assms(3))
  have cnt: "\<forall>k sys err. system_updates n (min_step e) (pendulum_system e) = (k, sys, err) \<longrightarrow>
            k \<le> n \<and>
            (err = None \<longrightarrow> k = n \<and> A - of_nat k * min_step e < min_step e) \<and>
            (err \<noteq> None \<longrightarrow> k < n \<and> min_step e \<le> A - of_nat k * min_step e)"
  proof (intro allI impI)
    fix k sys err
    assume r: "system_updates n (min_step e) (pendulum_system e) = (k, sys, err)"
    from system_updates_count [OF r]
    have c: "k \<le> n" "err = None \<longrightarrow> k = n" "err \<noteq> None \<longrightarrow> k < n" by auto
    have "k < n \<longrightarrow> min_step e \<le> A - of_nat k * min_step e"
      using unconsumed_step [OF assms(1), of k A] by (simp add: assms(3))
    with c rem show "k \<le> n \<and>
            (err = None \<longrightarrow> k = n \<and> A - of_nat k * min_step e < min_step e) \<and>
            (err \<noteq> None \<longrightarrow> k < n \<and> min_step e \<le> A - of_nat k * min_step e)"
      by auto
  qed
  have p: "paused (pendulum_system e) \<longrightarrow>
            system_updates n (min_step e) (pendulum_system e) = (n, pendulum_system e, None)"
    by (simp add: system_updates_paused)
  have r: "\<not> paused (pendulum_system e) \<longrightarrow>
            system_updates n (min_step e) (pendulum_system e) =
              (case integrate_n n (min_step e * time_scale (pendulum_system e))
                      (gravity (pendulum_system e)) (pendulums (pendulum_system e)) of
                 (k, ps, err) \<Rightarrow> (k, (pendulum_system e)\<lparr>pendulums := ps\<rparr>, err))"
    by (simp add: system_updates_running)
  from run cnt p r rem show ?thesis by blast
qed

theorem engine_update_accumulates_witness:
  "PhysicsEngine_update PhysicsEngine_init 250 =
     Some (PhysicsEngine_init\<lparr>last_time := 1 / 4, accumulated_time := 0\<rparr>, None) \<and>
   PhysicsEngine_update
     (PhysicsEngine_init\<lparr>pendulum_system :=
        PendulumSystem_init\<lparr>pendulums := [Pendulum_init\<lparr>angle1 := pi / 2\<rparr>], paused := False\<rparr>\<rparr>) 5 =
     Some (PhysicsEngine_init\<lparr>last_time := 1 / 200,
             pendulum_system :=
               PendulumSystem_init\<lparr>pendulums :=
                   [Pendulum_init\<lparr>vel1 := - (49 / 500) / 240,
                                   angle1 := pi / 2 - 49 / 500 / 240 / 240\<rparr>],
                 paused := False\<rparr>,
             accumulated_time := 1 / 200 - 1 / 240\<rparr>, None) \<and>
   PhysicsEngine_update
     (PhysicsEngine_init\<lparr>pendulum_system :=
        PendulumSystem_init\<lparr>pendulums :=
            [Pendulum_init\<lparr>angle1 := pi / 2, pathTracer := Some (PathTracer_init 1000)\<rparr>],
          paused := False\<rparr>\<rparr>) 50 =
     Some (PhysicsEngine_init\<lparr>last_time := 1 / 20,
             pendulum_system :=
               PendulumSystem_init\<lparr>pendulums :=
                   [Pendulum_init\<lparr>vel1 := - (49 / 500) / 240,
                                   angle1 := pi / 2 - 49 / 500 / 240 / 240,
                                   pathTracer := Some (PathTracer_init 1000)\<rparr>],
                 paused := False\<rparr>,
             accumulated_time := 1 / 20\<rparr>, Some (AttributeError ''addPoint''))"
proof -
  have h1: "0 < min_step PhysicsEngine_init"
    "1 / 10 = accumulated_time PhysicsEngine_init
         + min (of_int 250 / 1000 - last_time PhysicsEngine_init) (1 / 10)"
    "24 = nat \<lfloor>(1 / 10) / min_step PhysicsEngine_init\<rfloor>"
    by (simp_all add: PhysicsEngine_init_def)
  have p1: "paused (pendulum_system PhysicsEngine_init)"
    by (simp add: PhysicsEngine_init_def PendulumSystem_init_def)
  note t1 = engine_update_accumulates [OF h1]
  from t1 p1 have u1: "system_updates 24 (min_step PhysicsEngine_init)
      (pendulum_system PhysicsEngine_init) = (24, pendulum_system PhysicsEngine_init, None)"
    by blast
  from t1 [THEN conjunct1, unfolded u1]
  have first: "PhysicsEngine_update PhysicsEngine_init 250 =
     Some (PhysicsEngine_init\<lparr>last_time := 1 / 4, accumulated_time := 0\<rparr>, None)"
    by (simp add: PhysicsEngine_init_def)

  let ?sys2 = "PendulumSystem_init\<lparr>pendulums := [Pendulum_init\<lparr>angle1 := pi / 2\<rparr>], paused := False\<rparr>"
  let ?e2 = "PhysicsEngine_init\<lparr>pendulum_system := ?sys2\<rparr>"
  have h2: "0 < min_step ?e2"
    "1 / 200 = accumulated_time ?e2 + min (of_int 5 / 1000 - last_time ?e2) (1 / 10)"
    "Suc 0 = nat \<lfloor>(1 / 200) / min_step ?e2\<rfloor>"
    by (simp_all add: PhysicsEngine_init_def)
  have u2: "system_updates (Suc 0) (min_step ?e2) (pendulum_system ?e2) =
      (Suc 0, PendulumSystem_init\<lparr>pendulums :=
                   [Pendulum_init\<lparr>vel1 := - (49 / 500) / 240,
                                   angle1 := pi / 2 - 49 / 500 / 240 / 240\<rparr>],
                 paused := False\<rparr>, None)"
    by (simp add: PhysicsEngine_init_def PendulumSystem_init_def PendulumSystem_update_def
          quarter_turn_step)
  from engine_update_accumulates [OF h2, THEN conjunct1, unfolded u2]
  have second: "PhysicsEngine_update ?e2 5 =
     Some (PhysicsEngine_init\<lparr>last_time := 1 / 200,
             pendulum_system :=
               PendulumSystem_init\<lparr>pendulums :=
                   [Pendulum_init\<lparr>vel1 := - (49 / 500) / 240,
                                   angle1 := pi / 2 - 49 / 500 / 240 / 240\<rparr>],
                 paused := False\<rparr>,
             accumulated_time := 1 / 200 - 1 / 240\<rparr>, None)"
    by (simp add: PhysicsEngine_init_def)

  let ?s3 = "Pendulum_init\<lparr>angle1 := pi / 2, pathTracer := Some (PathTracer_init 1000)\<rparr>"
  let ?sys3 = "PendulumSystem_init\<lparr>pendulums := [?s3], paused := False\<rparr>"
  let ?e3 = "PhysicsEngine_init\<lparr>pendulum_system := ?sys3\<rparr>"
  have h3: "0 < min_step ?e3"
    "1 / 20 = accumulated_time ?e3 + min (of_int 50 / 1000 - last_time ?e3) (1 / 10)"
    "Suc 11 = nat \<lfloor>(1 / 20) / min_step ?e3\<rfloor>"
    by (simp_all add: PhysicsEngine_init_def)
  have v: "0 < mass1 ?s3" "0 < mass2 ?s3" "0 < length1 ?s3" "0 < length2 ?s3" "draggingBob ?s3 \<le> 0"
    by (simp_all add: Pendulum_init_def)
  have a: "spec_acc1 (49 / 5) ?s3 = - (49 / 500)" "spec_acc2 (49 / 5) ?s3 = 0"
    by (simp_all add: spec_acc1_def spec_acc2_def spec_num1_def spec_num2_def spec_den_def
          Pendulum_init_def)
  have step3: "Pendulum_update ?s3 (1 / 240) (49 / 5) =
      (Pendulum_init\<lparr>vel1 := - (49 / 500) / 240, angle1 := pi / 2 - 49 / 500 / 240 / 240,
                      pathTracer := Some (PathTracer_init 1000)\<rparr>,
       Some (AttributeError ''addPoint''))"
    by (simp add: Pendulum_update_valid [OF v] spec_step_def a) (simp add: Pendulum_init_def)
  have u3: "system_updates (Suc 11) (min_step ?e3) (pendulum_system ?e3) =
      (0, PendulumSystem_init\<lparr>pendulums :=
                   [Pendulum_init\<lparr>vel1 := - (49 / 500) / 240,
                                   angle1 := pi / 2 - 49 / 500 / 240 / 240,
                                   pathTracer := Some (PathTracer_init 1000)\<rparr>],
                 paused := False\<rparr>, Some (AttributeError ''addPoint''))"
    by (subst system_updates.simps)
       (simp add: PhysicsEngine_init_def PendulumSystem_init_def PendulumSystem_update_def step3)
  from engine_update_accumulates [OF h3, THEN conjunct1, unfolded u3]
  have third: "PhysicsEngine_update ?e3 50 =
     Some (PhysicsEngine_init\<lparr>last_time := 1 / 20,
             pendulum_system :=
               PendulumSystem_init\<lparr>pendulums :=
                   [Pendulum_init\<lparr>vel1 := - (49 / 500) / 240,
                                   angle1 := pi / 2 - 49 / 500 / 240 / 240,
                                   pathTracer := Some (PathTracer_init 1000)\<rparr>],
                 paused := False\<rparr>,
             accumulated_time := 1 / 20\<rparr>, Some (AttributeError ''addPoint''))"
    by (simp add: PhysicsEngine_init_def)
  from first second third show ?thesis by blast
qed

text \<open>
  The claim as the specification words it fails: a paused engine that is updated 10 ms
  after its creation does two system updates and keeps 1/600 s in the accumulator, which
  was 0.
\<close>

theorem paused_accumulates_counterexample:
  "paused (pendulum_system PhysicsEngine_init) \<and>
   PhysicsEngine_update PhysicsEngine_init 10 =
     Some (PhysicsEngine_init\<lparr>last_time := 1 / 100, accumulated_time := 1 / 600\<rparr>, None) \<and>
   \<not> (accumulated_time (PhysicsEngine_init\<lparr>last_time := 1 / 100, accumulated_time := 1 / 600\<rparr>)
        = accumulated_time PhysicsEngine_init)"
proof -
  let ?e1 = "PhysicsEngine_init\<lparr>last_time := of_int 10 / 1000,
     accumulated_time := accumulated_time PhysicsEngine_init
        + min (of_int 10 / 1000 - last_time PhysicsEngine_init) (1 / 10)\<rparr>"
  have p: "paused (pendulum_system PhysicsEngine_init)"
    by (simp add: PhysicsEngine_init_def PendulumSystem_init_def)
  have "fixed_steps ?e1 =
          Some (?e1\<lparr>accumulated_time := accumulated_time ?e1 - of_nat 2 * min_step ?e1\<rparr>, None)"
    using p by (intro fixed_steps_paused) (simp_all add: PhysicsEngine_init_def)
  then have "PhysicsEngine_update PhysicsEngine_init 10 =
     Some (PhysicsEngine_init\<lparr>last_time := 1 / 100, accumulated_time := 1 / 600\<rparr>, None)"
    by (simp add: PhysicsEngine_update_loop) (simp add: PhysicsEngine_init_def)
  with p show ?thesis by (simp add: PhysicsEngine_init_def)
qed

section \<open>Non-finite results of a step\<close>

lemma raises_within_Inr: "raises_within E (Inr x)"
  by (simp add: raises_within_def)

lemma raises_within_bind:
  "raises_within E r \<Longrightarrow> (\<And>x. raises_within E (f x)) \<Longrightarrow> raises_within E (bind_err r f)"
  by (cases r) (simp_all add: raises_within_def bind_err_def)

lemma raises_within_pair:
  "(\<And>a b. raises_within E (f a b)) \<Longrightarrow> raises_within E (case p of (a, b) \<Rightarrow> f a b)"
  by (cases p) simp

lemma raises_within_sin: "ValueError \<in> E \<Longrightarrow> raises_within E (fl_sin x)"
  by (cases x) (simp_all add: raises_within_def)

lemma raises_within_cos: "ValueError \<in> E \<Longrightarrow> raises_within E (fl_cos x)"
  by (cases x) (simp_all add: raises_within_def)

lemma raises_within_pow2: "OverflowError \<in> E \<Longrightarrow> raises_within E (fl_pow2 x)"
  by (cases x) (simp_all add: raises_within_def)

lemma raises_within_int: "ValueError \<in> E \<Longrightarrow> OverflowError \<in> E \<Longrightarrow> raises_within E (fl_int x)"
  by (cases x) (simp_all add: raises_within_def)

lemma raises_within_div: "ZeroDivisionError \<in> E \<Longrightarrow> raises_within E (fl_div x y)"
  by (cases x; cases y) (simp_all add: raises_within_def)

lemma fl_accelerations_raises:
  "raises_within {ValueError, OverflowError, ZeroDivisionError} (fl_accelerations s g)"
  unfolding fl_accelerations_def Let_def
  by (intro raises_within_bind raises_within_sin raises_within_cos raises_within_pow2
        raises_within_div raises_within_Inr) simp_all

lemma fl_bob1_position_raises:
  "raises_within {ValueError, OverflowError} (fl_bob1_position s)"
  unfolding fl_bob1_position_def
  by (intro raises_within_bind raises_within_sin raises_within_cos raises_within_int
        raises_within_Inr) simp_all

lemma fl_bob2_position_raises:
  "raises_within {ValueError, OverflowError} (fl_bob2_position s)"
  unfolding fl_bob2_position_def
  by (intro raises_within_bind raises_within_pair raises_within_sin raises_within_cos
        raises_within_int raises_within_Inr fl_bob1_position_raises) simp_all

lemma Pendulum_update_fl_dragging:
  "0 < f_draggingBob s \<Longrightarrow> Pendulum_update_fl s dt g = (s, None)"
  by (simp add: Pendulum_update_fl_def)

lemma Pendulum_update_fl_raised:
  "f_draggingBob s \<le> 0 \<Longrightarrow> fl_accelerations s g = Inl e \<Longrightarrow>
     Pendulum_update_fl s dt g = (s, Some e)"
  by (simp add: Pendulum_update_fl_def)

lemma Pendulum_update_fl_stored:
  assumes "f_draggingBob s \<le> 0" "fl_accelerations s g = Inr (acc1, acc2)"
  shows "fst (Pendulum_update_fl s dt g) =
           s\<lparr>f_vel1 := fl_add (f_vel1 s) (fl_mul acc1 dt),
             f_vel2 := fl_add (f_vel2 s) (fl_mul acc2 dt),
             f_angle1 := fl_add (f_angle1 s) (fl_mul (fl_add (f_vel1 s) (fl_mul acc1 dt)) dt),
             f_angle2 := fl_add (f_angle2 s) (fl_mul (fl_add (f_vel2 s) (fl_mul acc2 dt)) dt)\<rparr>"
    and "f_pathTracer s = None \<Longrightarrow> snd (Pendulum_update_fl s dt g) = None"
    and "f_pathTracer s \<noteq> None \<Longrightarrow>
           snd (Pendulum_update_fl s dt g) \<in>
             {Some ValueError, Some OverflowError, Some (AttributeError ''addPoint'')}"
proof -
  let ?s4 = "s\<lparr>f_vel1 := fl_add (f_vel1 s) (fl_mul acc1 dt),
             f_vel2 := fl_add (f_vel2 s) (fl_mul acc2 dt),
             f_angle1 := fl_add (f_angle1 s) (fl_mul (fl_add (f_vel1 s) (fl_mul acc1 dt)) dt),
             f_angle2 := fl_add (f_angle2 s) (fl_mul (fl_add (f_vel2 s) (fl_mul acc2 dt)) dt)\<rparr>"
  have u: "Pendulum_update_fl s dt g =
      (case f_pathTracer s of
         None \<Rightarrow> (?s4, None)
       | Some t \<Rightarrow>
           (case fl_bob2_position ?s4 of
              Inl e \<Rightarrow> (?s4, Some e)
            | Inr p \<Rightarrow> (?s4, Some (AttributeError ''addPoint''))))"
    using assms
    by (simp add: Pendulum_update_fl_def Let_def addPoint_missing split: option.split sum.split)
  show "fst (Pendulum_update_fl s dt g) = ?s4"
    by (simp add: u split: option.split sum.split)
  show "f_pathTracer s = None \<Longrightarrow> snd (Pendulum_update_fl s dt g) = None"
    by (simp add: u)
  show "f_pathTracer s \<noteq> None \<Longrightarrow>
           snd (Pendulum_update_fl s dt g) \<in>
             {Some ValueError, Some OverflowError, Some (AttributeError ''addPoint'')}"
    using fl_bob2_position_raises [of ?s4]
    by (auto simp: u raises_within_def split: option.split sum.split)
qed

lemma Pendulum_update_fl_no_overflow_signal:
  "snd (Pendulum_update_fl s dt g) \<noteq> Some NumericOverflow"
proof (cases "0 < f_draggingBob s")
  case True
  then show ?thesis by (simp add: Pendulum_update_fl_dragging)
next
  case False
  then have idle: "f_draggingBob s \<le> 0" by simp
  show ?thesis
  proof (cases "fl_accelerations s g")
    case (Inl e)
    with fl_accelerations_raises [of s g] have "e \<noteq> NumericOverflow"
      by (auto simp: raises_within_def)
    with Inl idle show ?thesis by (simp add: Pendulum_update_fl_raised)
  next
    case (Inr acc)
    obtain acc1 acc2 where "acc = (acc1, acc2)" by (cases acc) auto
    with Inr have a: "fl_accelerations s g = Inr (acc1, acc2)" by simp
    show ?thesis
    proof (cases "f_pathTracer s")
      case None
      with Pendulum_update_fl_stored(2) [OF idle a] show ?thesis by simp
    next
      case (Some t)
      with Pendulum_update_fl_stored(3) [OF idle a, of dt] show ?thesis by auto
    qed
  qed
qed

lemma max_float_bounds: "10 ^ 308 \<le> max_float" "max_float < 10 ^ 309"
  by (simp_all add: max_float_def)

lemma max_float_million: "1000000 \<le> max_float"
proof -
  have "(10::real) ^ 6 \<le> 10 ^ 308" by (rule power_increasing) simp_all
  from this max_float_bounds(1) have "(10::real) ^ 6 \<le> max_float" by (rule order_trans)
  then show ?thesis by simp
qed

lemma fl_result_small: "\<bar>r\<bar> \<le> 1000000 \<Longrightarrow> fl_result r = Fin r"
  using max_float_million by (auto simp: fl_result_def)

lemma fl_pow2_zero: "fl_pow2 (Fin 0) = Inr (Fin 0)"
  using max_float_million by simp

lemma spin_accelerations:
  assumes "v\<^sup>2 \<le> max_float" "max_float < v\<^sup>2 * 100"
  shows "fl_accelerations (Pendulum_fl_init\<lparr>f_vel1 := Fin v\<rparr>) (Fin (49 / 5)) = Inr (NaN, NaN)"
proof -
  have sq: "fl_pow2 (Fin v) = Inr (Fin (v\<^sup>2))" using assms(1) by simp
  have ov: "fl_result (v\<^sup>2 * 100) = PInf" using assms(2) by (simp add: fl_result_def)
  show ?thesis
    by (simp add: fl_accelerations_def Pendulum_fl_init_def bind_err_def Let_def fl_sub_def
          fl_scale_inf_def fl_result_small fl_pow2_zero sq ov del: fl_pow2.simps)
qed

lemma spin_overflow:
  assumes "max_float < v\<^sup>2"
  shows "fl_accelerations (Pendulum_fl_init\<lparr>f_vel1 := Fin v\<rparr>) (Fin (49 / 5)) = Inl OverflowError"
proof -
  have sq: "fl_pow2 (Fin v) = Inl OverflowError" using assms by simp
  show ?thesis
    by (simp add: fl_accelerations_def Pendulum_fl_init_def bind_err_def Let_def fl_sub_def
          fl_scale_inf_def fl_result_small fl_pow2_zero sq del: fl_pow2.simps)
qed

lemma rest_accelerations:
  "fl_accelerations Pendulum_fl_init (Fin (49 / 5)) = Inr (Fin 0, Fin 0)"
  by (simp add: fl_accelerations_def Pendulum_fl_init_def bind_err_def Let_def fl_sub_def
        fl_scale_inf_def fl_result_small fl_pow2_zero del: fl_pow2.simps)

lemma fast_spin_accelerations:
  "fl_accelerations (Pendulum_fl_init\<lparr>f_vel1 := Fin (10 ^ 154)\<rparr>) (Fin (49 / 5)) = Inr (NaN, NaN)"
proof (rule spin_accelerations)
  have sq: "((10::real) ^ 154)\<^sup>2 = 10 ^ 308" by (simp only: power_mult [symmetric]) simp
  show "((10::real) ^ 154)\<^sup>2 \<le> max_float"
    using max_float_bounds(1) by (simp only: sq)
  have "(10::real) ^ 309 \<le> 10 ^ 308 * 100" by simp
  with max_float_bounds(2) have "max_float < (10::real) ^ 308 * 100" by (rule less_le_trans)
  then show "max_float < ((10::real) ^ 154)\<^sup>2 * 100"
    by (simp only: sq)
qed

lemma faster_spin_accelerations:
  "fl_accelerations (Pendulum_fl_init\<lparr>f_vel1 := Fin (10 ^ 200)\<rparr>) (Fin (49 / 5)) = Inl OverflowError"
proof (rule spin_overflow)
  have sq: "((10::real) ^ 200)\<^sup>2 = 10 ^ 400" by (simp only: power_mult [symmetric]) simp
  have "(10::real) ^ 309 \<le> 10 ^ 400" by (rule power_increasing) simp_all
  with max_float_bounds(2) have "max_float < (10::real) ^ 400" by (rule less_le_trans)
  then show "max_float < ((10::real) ^ 200)\<^sup>2" by (simp only: sq)
qed

text \<open>
  Claim C4, as the code has it. \<open>update\<close> has no check after the step. For a pendulum
  that is not being dragged, once the accelerations have been computed the new velocities
  and angles are stored as they come out of the arithmetic, finite or not, and with no
  tracer the call returns normally; the state is not rolled back. An exception of the
  arithmetic that computes the accelerations (\<open>ValueError\<close>, \<open>OverflowError\<close>,
  \<open>ZeroDivisionError\<close>) ends the call before any assignment. No call signals
  \<open>NumericOverflow\<close>.
\<close>

theorem update_stores_unchecked:
  "snd (Pendulum_update_fl s dt g) \<noteq> Some NumericOverflow \<and>
   (f_draggingBob s \<le> 0 \<and> fl_accelerations s g = Inr (acc1, acc2) \<longrightarrow>
      fst (Pendulum_update_fl s dt g) =
        s\<lparr>f_vel1 := fl_add (f_vel1 s) (fl_mul acc1 dt),
          f_vel2 := fl_add (f_vel2 s) (fl_mul acc2 dt),
          f_angle1 := fl_add (f_angle1 s) (fl_mul (fl_add (f_vel1 s) (fl_mul acc1 dt)) dt),
          f_angle2 := fl_add (f_angle2 s) (fl_mul (fl_add (f_vel2 s) (fl_mul acc2 dt)) dt)\<rparr> \<and>
      (f_pathTracer s = None \<longrightarrow> snd (Pendulum_update_fl s dt g) = None)) \<and>
   (f_draggingBob s \<le> 0 \<and> fl_accelerations s g = Inl e \<longrightarrow>
      Pendulum_update_fl s dt g = (s, Some e) \<and>
      e \<in> {ValueError, OverflowError, ZeroDivisionError})"
proof -
  have sig: "snd (Pendulum_update_fl s dt g) \<noteq> Some NumericOverflow"
    by (rule Pendulum_update_fl_no_overflow_signal)
  have st: "f_draggingBob s \<le> 0 \<and> fl_accelerations s g = Inr (acc1, acc2) \<longrightarrow>
      fst (Pendulum_update_fl s dt g) =
        s\<lparr>f_vel1 := fl_add (f_vel1 s) (fl_mul acc1 dt),
          f_vel2 := fl_add (f_vel2 s) (fl_mul acc2 dt),
          f_angle1 := fl_add (f_angle1 s) (fl_mul (fl_add (f_vel1 s) (fl_mul acc1 dt)) dt),
          f_angle2 := fl_add (f_angle2 s) (fl_mul (fl_add (f_vel2 s) (fl_mul acc2 dt)) dt)\<rparr> \<and>
      (f_pathTracer s = None \<longrightarrow> snd (Pendulum_update_fl s dt g) = None)"
    using Pendulum_update_fl_stored(1,2) [of s g acc1 acc2 dt] by blast
  have ra: "f_draggingBob s \<le> 0 \<and> fl_accelerations s g = Inl e \<longrightarrow>
      Pendulum_update_fl s dt g = (s, Some e) \<and>
      e \<in> {ValueError, OverflowError, ZeroDivisionError}"
    using Pendulum_update_fl_raised [of s g e dt] fl_accelerations_raises [of s g]
    by (auto simp: raises_within_def)
  from sig st ra show ?thesis by blast
qed

theorem update_stores_unchecked_witness:
  "Pendulum_update_fl Pendulum_fl_init (Fin (1 / 240)) (Fin (49 / 5)) = (Pendulum_fl_init, None) \<and>
   fst (Pendulum_update_fl (Pendulum_fl_init\<lparr>f_vel1 := Fin (10 ^ 154)\<rparr>) (Fin (1 / 240)) (Fin (49 / 5))) =
     Pendulum_fl_init\<lparr>f_vel1 := NaN, f_vel2 := NaN, f_angle1 := NaN, f_angle2 := NaN\<rparr> \<and>
   Pendulum_update_fl (Pendulum_fl_init\<lparr>f_vel1 := Fin (10 ^ 200)\<rparr>) (Fin (1 / 240)) (Fin (49 / 5)) =
     (Pendulum_fl_init\<lparr>f_vel1 := Fin (10 ^ 200)\<rparr>, Some OverflowError)"
proof -
  note rest = rest_accelerations
  have i0: "f_draggingBob Pendulum_fl_init \<le> 0" "f_pathTracer Pendulum_fl_init = None"
    by (simp_all add: Pendulum_fl_init_def)
  from update_stores_unchecked [of Pendulum_fl_init "Fin (1 / 240)" "Fin (49 / 5)" "Fin 0" "Fin 0"]
    rest i0
  have "fst (Pendulum_update_fl Pendulum_fl_init (Fin (1 / 240)) (Fin (49 / 5))) = Pendulum_fl_init
      \<and> snd (Pendulum_update_fl Pendulum_fl_init (Fin (1 / 240)) (Fin (49 / 5))) = None"
    by (simp add: Pendulum_fl_init_def fl_result_small)
  then have first: "Pendulum_update_fl Pendulum_fl_init (Fin (1 / 240)) (Fin (49 / 5)) =
      (Pendulum_fl_init, None)"
    by (simp add: prod_eq_iff)
  let ?s = "Pendulum_fl_init\<lparr>f_vel1 := Fin (10 ^ 154)\<rparr>"
  have i1: "f_draggingBob ?s \<le> 0" by (simp add: Pendulum_fl_init_def)
  from update_stores_unchecked [of ?s "Fin (1 / 240)" "Fin (49 / 5)" NaN NaN]
    fast_spin_accelerations i1
  have "fst (Pendulum_update_fl ?s (Fin (1 / 240)) (Fin (49 / 5))) =
     ?s\<lparr>f_vel1 := fl_add (f_vel1 ?s) (fl_mul NaN (Fin (1 / 240))),
        f_vel2 := fl_add (f_vel2 ?s) (fl_mul NaN (Fin (1 / 240))),
        f_angle1 := fl_add (f_angle1 ?s)
           (fl_mul (fl_add (f_vel1 ?s) (fl_mul NaN (Fin (1 / 240)))) (Fin (1 / 240))),
        f_angle2 := fl_add (f_angle2 ?s)
           (fl_mul (fl_add (f_vel2 ?s) (fl_mul NaN (Fin (1 / 240)))) (Fin (1 / 240)))\<rparr>"
    by blast
  then have second: "fst (Pendulum_update_fl ?s (Fin (1 / 240)) (Fin (49 / 5))) =
     Pendulum_fl_init\<lparr>f_vel1 := NaN, f_vel2 := NaN, f_angle1 := NaN, f_angle2 := NaN\<rparr>"
    by (simp add: Pendulum_fl_init_def)
  let ?t = "Pendulum_fl_init\<lparr>f_vel1 := Fin (10 ^ 200)\<rparr>"
  have i2: "f_draggingBob ?t \<le> 0" by (simp add: Pendulum_fl_init_def)
  from update_stores_unchecked [of ?t "Fin (1 / 240)" "Fin (49 / 5)" _ _ OverflowError]
    faster_spin_accelerations i2
  have third: "Pendulum_update_fl ?t (Fin (1 / 240)) (Fin (49 / 5)) = (?t, Some OverflowError)"
    by blast
  from first second third show ?thesis by blast
qed

text \<open>
  The claim as the specification words it fails: a pendulum at rest position whose inner
  joint turns at \<open>1e154\<close> is stepped with \<open>dt = 1 / 240\<close>; the product
  \<open>vel1 ** 2 * l1\<close> overflows, all four results are \<^verbatim>\<open>nan\<close>, and the call returns
  normally with them stored.
\<close>

theorem non_finite_step_counterexample:
  "Pendulum_update_fl (Pendulum_fl_init\<lparr>f_vel1 := Fin (10 ^ 154)\<rparr>) (Fin (1 / 240)) (Fin (49 / 5)) =
     (Pendulum_fl_init\<lparr>f_vel1 := NaN, f_vel2 := NaN, f_angle1 := NaN, f_angle2 := NaN\<rparr>, None) \<and>
   \<not> fl_finite NaN \<and>
   \<not> (Pendulum_update_fl (Pendulum_fl_init\<lparr>f_vel1 := Fin (10 ^ 154)\<rparr>) (Fin (1 / 240)) (Fin (49 / 5)) =
        (Pendulum_fl_init\<lparr>f_vel1 := Fin (10 ^ 154)\<rparr>, Some NumericOverflow))"
proof -
  let ?s = "Pendulum_fl_init\<lparr>f_vel1 := Fin (10 ^ 154)\<rparr>"
  have i: "f_draggingBob ?s \<le> 0" and n: "f_pathTracer ?s = None"
    by (simp_all add: Pendulum_fl_init_def)
  have "fst (Pendulum_update_fl ?s (Fin (1 / 240)) (Fin (49 / 5))) =
     Pendulum_fl_init\<lparr>f_vel1 := NaN, f_vel2 := NaN, f_angle1 := NaN, f_angle2 := NaN\<rparr>"
    by (simp only: Pendulum_update_fl_stored(1) [OF i fast_spin_accelerations])
       (simp add: Pendulum_fl_init_def)
  moreover have "snd (Pendulum_update_fl ?s (Fin (1 / 240)) (Fin (49 / 5))) = None"
    using n by (rule Pendulum_update_fl_stored(2) [OF i fast_spin_accelerations])
  ultimately have "Pendulum_update_fl ?s (Fin (1 / 240)) (Fin (49 / 5)) =
     (Pendulum_fl_init\<lparr>f_vel1 := NaN, f_vel2 := NaN, f_angle1 := NaN, f_angle2 := NaN\<rparr>, None)"
    by (simp add: prod_eq_iff)
  then show ?thesis by simp
qed

end
